theory Spec2Isabelle
  imports Main "HOL-Library.AList"
begin

section \<open>The backend relay \<^verbatim>\<open>api/generate.js\<close>\<close>

text \<open>
  The relay is one asynchronous handler and the helper \<^verbatim>\<open>withRetry\<close>. Awaiting a promise
  either yields a value or throws, so every awaited expression is a \<open>completion\<close>. The
  network and the timer are the only effects: they are threaded through the model as a
  \<open>machine\<close>, whose \<open>world\<close> is whatever decides the outcome of the next outbound call and
  whose \<open>trace\<close> records, in order, every call made and every pause requested.
\<close>

subsection \<open>Errors and completions\<close>

text \<open>
  \<open>Error m\<close> is an error object whose \<^verbatim>\<open>message\<close> is the string \<open>m\<close> (\<^verbatim>\<open>new Error(m)\<close>, or a
  rejection carrying that message). \<open>TypeError\<close> and \<open>SyntaxError\<close> are the errors the
  runtime itself raises while evaluating an expression of the handler (reading a property
  of \<^verbatim>\<open>null\<close> or \<^verbatim>\<open>undefined\<close>, converting an object without a usable \<^verbatim>\<open>toString\<close>,
  \<^verbatim>\<open>JSON.parse\<close> on a text that is not JSON); their message text is the engine's and is kept
  symbolic.
\<close>

datatype js_error = Error string | TypeError | SyntaxError

datatype 'a completion = Return 'a | Throw js_error

subsection \<open>The machine: world and trace\<close>

datatype 'c event = Call 'c | Sleep int

record ('w, 'c) machine =
  world :: 'w
  trace :: "'c event list"

text \<open>
  \<open>call c f\<close> is an asynchronous operation: invoking it runs \<open>f\<close> on the world and records
  the invocation under the label \<open>c\<close>.
\<close>

definition call ::
  "'c \<Rightarrow> ('w \<Rightarrow> 'a completion \<times> 'w) \<Rightarrow> ('w, 'c) machine \<Rightarrow> 'a completion \<times> ('w, 'c) machine" where
  "call c f s = (case f (world s) of (r, w') \<Rightarrow> (r, \<lparr>world = w', trace = trace s @ [Call c]\<rparr>))"

text \<open>\<^verbatim>\<open>await new Promise(resolve => setTimeout(resolve, ms))\<close>\<close>

definition sleep :: "int \<Rightarrow> ('w, 'c) machine \<Rightarrow> ('w, 'c) machine" where
  "sleep ms s = s\<lparr>trace := trace s @ [Sleep ms]\<rparr>"

subsection \<open>\<^verbatim>\<open>withRetry\<close>\<close>

text \<open>
  \<^verbatim>\<open>
  const withRetry = async (fn, maxRetries = 3, delay = 1000) => {
    for (let i = 0; i < maxRetries; i++) {
      try {
        return await fn();
      } catch (error) {
        if (i === maxRetries - 1) throw error;
        await new Promise(resolve => setTimeout(resolve, delay * Math.pow(2, i)));
      }
    }
  };
  \<close>
  \<open>withRetry_from i\<close> is the loop entered with the counter at \<open>i\<close>. Falling out of the loop
  resolves with \<^verbatim>\<open>undefined\<close>, which is \<open>Return None\<close>. The counter, the cap and the delay
  are integers (the handler passes none of them, so they are the defaults 3 and 1000).
\<close>

function withRetry_from ::
  "int \<Rightarrow> (('w, 'c) machine \<Rightarrow> 'a completion \<times> ('w, 'c) machine) \<Rightarrow> int \<Rightarrow> int \<Rightarrow>
   ('w, 'c) machine \<Rightarrow> 'a option completion \<times> ('w, 'c) machine" where
  "withRetry_from i fn maxRetries delay s =
     (if i < maxRetries then
        (case fn s of
           (Return v, s') \<Rightarrow> (Return (Some v), s')
         | (Throw error, s') \<Rightarrow>
             if i = maxRetries - 1 then (Throw error, s')
             else withRetry_from (i + 1) fn maxRetries delay (sleep (delay * 2 ^ nat i) s'))
      else (Return None, s))"
  by pat_completeness auto
termination
  by (relation "measure (\<lambda>(i, fn, maxRetries, delay, s). nat (maxRetries - i))") auto

definition withRetry ::
  "(('w, 'c) machine \<Rightarrow> 'a completion \<times> ('w, 'c) machine) \<Rightarrow> int \<Rightarrow> int \<Rightarrow>
   ('w, 'c) machine \<Rightarrow> 'a option completion \<times> ('w, 'c) machine" where
  "withRetry fn maxRetries delay s = withRetry_from 0 fn maxRetries delay s"

text \<open>
  To speak about an operation that fails some number of times: \<open>runs f w n\<close> lists the
  outcomes of \<open>n\<close> successive invocations of \<open>f\<close> starting in the world \<open>w\<close>, and
  \<open>world_after f w n\<close> is the world they leave behind. \<open>attempts c delay i n\<close> is the trace of
  \<open>n\<close> failed attempts, the first with loop counter \<open>i\<close>: each is the call followed by its
  pause.
\<close>

fun runs :: "('w \<Rightarrow> 'a completion \<times> 'w) \<Rightarrow> 'w \<Rightarrow> nat \<Rightarrow> 'a completion list" where
  "runs f w 0 = []"
| "runs f w (Suc n) = (case f w of (r, w') \<Rightarrow> r # runs f w' n)"

fun world_after :: "('w \<Rightarrow> 'a completion \<times> 'w) \<Rightarrow> 'w \<Rightarrow> nat \<Rightarrow> 'w" where
  "world_after f w 0 = w"
| "world_after f w (Suc n) = world_after f (snd (f w)) n"

fun attempts :: "'c \<Rightarrow> int \<Rightarrow> nat \<Rightarrow> nat \<Rightarrow> 'c event list" where
  "attempts c delay i 0 = []"
| "attempts c delay i (Suc n) = Call c # Sleep (delay * 2 ^ i) # attempts c delay (Suc i) n"

definition calls :: "'c event list \<Rightarrow> nat" where
  "calls tr = length (filter (\<lambda>e. case e of Call _ \<Rightarrow> True | Sleep _ \<Rightarrow> False) tr)"

definition sleeps :: "'c event list \<Rightarrow> int list" where
  "sleeps tr = concat (map (\<lambda>e. case e of Call _ \<Rightarrow> [] | Sleep ms \<Rightarrow> [ms]) tr)"

section \<open>JavaScript values\<close>

text \<open>
  The values the handler handles are those of JSON, read from a response body or produced
  by \<^verbatim>\<open>JSON.parse\<close>. \<^verbatim>\<open>undefined\<close> is \<open>None\<close> of \<open>jsvalue option\<close>. An object is the list
  of its own properties. Strings are lists of characters, which the handler only
  concatenates and tests for emptiness.

  Of a number the handler observes two things only: whether it is zero (in \<^verbatim>\<open>!x\<close> and
  \<^verbatim>\<open>x || y\<close>) and the text the runtime prints for it (in a template literal and in
  \<^verbatim>\<open>JSON.parse\<close>). That text determines the number, and \<^verbatim>\<open>0\<close> is the text of zero and of
  minus zero alike. So a number is modelled by its text: \<open>JNumber ''1''\<close>, \<open>JNumber ''-7''\<close>,
  \<open>JNumber ''1.5''\<close>, \<open>JNumber ''1e+21''\<close>. This is exact for every number, of whatever size,
  and no arithmetic on numbers is modelled because the handler does none.
\<close>

datatype jsvalue =
    JNull
  | JBool bool
  | JNumber string
  | JString string
  | JArray "jsvalue list"
  | JObject "(string \<times> jsvalue) list"

text \<open>Truthiness, as tested by \<^verbatim>\<open>!x\<close> and \<^verbatim>\<open>x || y\<close>.\<close>

fun truthy :: "jsvalue option \<Rightarrow> bool" where
  "truthy None = False"
| "truthy (Some JNull) = False"
| "truthy (Some (JBool b)) = b"
| "truthy (Some (JNumber t)) = (t \<noteq> ''0'' \<and> t \<noteq> ''NaN'')"
| "truthy (Some (JString s)) = (s \<noteq> [])"
| "truthy (Some (JArray xs)) = True"
| "truthy (Some (JObject kvs)) = True"

text \<open>\<^verbatim>\<open>x || y\<close> where \<open>y\<close> is a value\<close>

fun or_else :: "jsvalue option \<Rightarrow> jsvalue \<Rightarrow> jsvalue" where
  "or_else None d = d"
| "or_else (Some v) d = (if truthy (Some v) then v else d)"

text \<open>
  Reading a property of a value that is neither \<^verbatim>\<open>null\<close> nor \<^verbatim>\<open>undefined\<close>. The handler reads
  only the names \<^verbatim>\<open>candidates\<close>, \<^verbatim>\<open>content\<close>, \<^verbatim>\<open>parts\<close>, \<^verbatim>\<open>text\<close>, \<^verbatim>\<open>italianName\<close>,
  \<^verbatim>\<open>englishTranslation\<close>, \<^verbatim>\<open>imagePrompt\<close>, \<^verbatim>\<open>predictions\<close>, \<^verbatim>\<open>bytesBase64Encoded\<close>, \<^verbatim>\<open>error\<close>,
  \<^verbatim>\<open>message\<close> and \<^verbatim>\<open>geminiPayload\<close>, none of which a prototype defines, so only an object can
  have them; and the index \<^verbatim>\<open>0\<close>, which an array, a string and an object can have.
\<close>

fun get :: "jsvalue \<Rightarrow> string \<Rightarrow> jsvalue option" where
  "get (JObject kvs) k = map_of kvs k"
| "get v k = None"

fun at0 :: "jsvalue \<Rightarrow> jsvalue option" where
  "at0 (JArray xs) = (case xs of [] \<Rightarrow> None | x # _ \<Rightarrow> Some x)"
| "at0 (JString s) = (case s of [] \<Rightarrow> None | c # _ \<Rightarrow> Some (JString [c]))"
| "at0 (JObject kvs) = map_of kvs ''0''"
| "at0 v = None"

text \<open>\<^verbatim>\<open>x.k\<close>: throws on \<^verbatim>\<open>null\<close> and \<^verbatim>\<open>undefined\<close>\<close>

fun member :: "jsvalue option \<Rightarrow> string \<Rightarrow> jsvalue option completion" where
  "member None k = Throw TypeError"
| "member (Some JNull) k = Throw TypeError"
| "member (Some v) k = Return (get v k)"

text \<open>\<^verbatim>\<open>x?.k\<close> and \<^verbatim>\<open>x?.[0]\<close>: \<^verbatim>\<open>undefined\<close> on \<^verbatim>\<open>null\<close> and \<^verbatim>\<open>undefined\<close>\<close>

fun opt_member :: "jsvalue option \<Rightarrow> string \<Rightarrow> jsvalue option" where
  "opt_member None k = None"
| "opt_member (Some JNull) k = None"
| "opt_member (Some v) k = get v k"

fun opt_at0 :: "jsvalue option \<Rightarrow> jsvalue option" where
  "opt_at0 None = None"
| "opt_at0 (Some JNull) = None"
| "opt_at0 (Some v) = at0 v"

text \<open>
  Conversion to a string, as a template literal and \<^verbatim>\<open>JSON.parse\<close> do it. A number gives
  its text. An array is
  joined with commas, \<^verbatim>\<open>null\<close> elements giving the empty string. An object made by JSON has
  no callable property: with an own \<^verbatim>\<open>toString\<close> it has no usable conversion and the
  runtime throws a TypeError, without one it inherits \<^verbatim>\<open>Object.prototype.toString\<close>.
\<close>

fun ToString :: "jsvalue \<Rightarrow> string completion"
  and join :: "jsvalue list \<Rightarrow> string completion" where
  "ToString JNull = Return ''null''"
| "ToString (JBool b) = Return (if b then ''true'' else ''false'')"
| "ToString (JNumber t) = Return t"
| "ToString (JString s) = Return s"
| "ToString (JArray xs) = join xs"
| "ToString (JObject kvs) =
     (if ''toString'' \<in> fst ` set kvs then Throw TypeError else Return ''[object Object]'')"
| "join [] = Return []"
| "join (x # xs) =
     (case (if x = JNull then Return [] else ToString x) of
        Throw e \<Rightarrow> Throw e
      | Return s \<Rightarrow>
          (if xs = [] then Return s
           else (case join xs of Throw e \<Rightarrow> Throw e | Return t \<Rightarrow> Return (s @ '','' @ t))))"

text \<open>\<^verbatim>\<open>`${x}`\<close>\<close>

fun template :: "jsvalue option \<Rightarrow> string completion" where
  "template None = Return ''undefined''"
| "template (Some v) = ToString v"

text \<open>
  \<^verbatim>\<open>JSON.parse(x)\<close> converts its argument to a string and parses that. The parser proper
  belongs to the runtime and is a parameter of the model: \<open>parse s\<close> is the value the text
  \<open>s\<close> denotes, or \<open>None\<close> when \<open>s\<close> is not JSON. The text \<^verbatim>\<open>undefined\<close>, which is what
  \<^verbatim>\<open>undefined\<close> converts to, is not JSON.
\<close>

fun JSON_parse :: "(string \<Rightarrow> jsvalue option) \<Rightarrow> jsvalue option \<Rightarrow> jsvalue completion" where
  "JSON_parse parse None = Throw SyntaxError"
| "JSON_parse parse (Some v) =
     (case ToString v of
        Throw e \<Rightarrow> Throw e
      | Return s \<Rightarrow> (case parse s of None \<Rightarrow> Throw SyntaxError | Some j \<Rightarrow> Return j))"

section \<open>The handler\<close>

subsection \<open>Requests, responses, replies\<close>

text \<open>
  An outbound call is \<^verbatim>\<open>fetch(url, { method: 'POST', headers, body: JSON.stringify(payload) })\<close>;
  the method and the headers are fixed, and the body is represented by the value it serialises.
  Of a response the handler reads \<^verbatim>\<open>ok\<close> and awaits \<^verbatim>\<open>json()\<close>, which yields the value of the
  body or throws when the body is not JSON.
\<close>

record request =
  url :: string
  payload :: "jsvalue option"

record response =
  ok :: bool
  json :: "jsvalue completion"

text \<open>The inbound request: \<^verbatim>\<open>req.method\<close> and \<^verbatim>\<open>req.body\<close>.\<close>

record inbound =
  "method" :: string
  body :: "jsvalue option"

text \<open>
  What the handler sends back: \<^verbatim>\<open>res.status(n).json({ error: m })\<close> is \<open>(n, ErrorReply m)\<close> and
  \<^verbatim>\<open>res.status(200).json({ name, translation, imageUrl })\<close> is \<open>(200, FusionReply name
  translation imageUrl)\<close>. A message is a string, or the text the engine gave to an error
  of its own.
\<close>

datatype message = Text string | TypeError_message | SyntaxError_message

datatype reply =
    ErrorReply message
  | FusionReply jsvalue jsvalue string

text \<open>\<^verbatim>\<open>e.message || d\<close>; the engine's own messages are not empty.\<close>

fun message_or :: "js_error \<Rightarrow> string \<Rightarrow> message" where
  "message_or (Error m) d = Text (if m = [] then d else m)"
| "message_or TypeError d = TypeError_message"
| "message_or SyntaxError d = SyntaxError_message"

subsection \<open>A response that is not ok\<close>

text \<open>
  \<^verbatim>\<open>
  const err = await geminiResponse.json();
  throw new Error(`Gemini API Error: ${err.error.message}`);
  \<close>
  and the same for Imagen. Every path throws; \<open>api_error\<close> is the error thrown.
\<close>

definition api_error :: "string \<Rightarrow> response \<Rightarrow> js_error" where
  "api_error label r =
     (case json r of
        Throw e \<Rightarrow> e
      | Return err \<Rightarrow>
          (case member (Some err) ''error'' of
             Throw e \<Rightarrow> e
           | Return err_error \<Rightarrow>
               (case member err_error ''message'' of
                  Throw e \<Rightarrow> e
                | Return err_error_message \<Rightarrow>
                    (case template err_error_message of
                       Throw e \<Rightarrow> e
                     | Return text \<Rightarrow> Error (label @ text)))))"

subsection \<open>The structured idea\<close>

text \<open>
  \<^verbatim>\<open>
  let generatedName = 'Il Creato Senza Nome';
  let generatedTranslation = 'The Unnamed Creation';
  let finalImagePrompt = 'A surreal hybrid creature, vibrant colors, baroque illustration, octane render.';

  try {
    const jsonText = geminiResult.candidates?.[0]?.content?.parts?.[0]?.text;
    const parsedJson = JSON.parse(jsonText);
    generatedName = parsedJson.italianName || generatedName;
    generatedTranslation = parsedJson.englishTranslation || generatedTranslation;
    finalImagePrompt = parsedJson.imagePrompt || finalImagePrompt;
  } catch (e) {
    console.warn("Failed to parse Gemini JSON, using fallback.");
  }
  \<close>
  The result is the three variables after the block. A throw leaves them as the
  assignments before it made them.
\<close>

definition jsonText :: "jsvalue option \<Rightarrow> jsvalue option" where
  "jsonText candidates =
     opt_member (opt_at0 (opt_member (opt_member (opt_at0 candidates) ''content'') ''parts'')) ''text''"

definition idea :: "(string \<Rightarrow> jsvalue option) \<Rightarrow> jsvalue \<Rightarrow> jsvalue \<times> jsvalue \<times> jsvalue" where
  "idea parse geminiResult =
     (let generatedName = JString ''Il Creato Senza Nome'';
          generatedTranslation = JString ''The Unnamed Creation'';
          finalImagePrompt =
            JString ''A surreal hybrid creature, vibrant colors, baroque illustration, octane render.''
      in
      case member (Some geminiResult) ''candidates'' of
        Throw e \<Rightarrow> (generatedName, generatedTranslation, finalImagePrompt)
      | Return candidates \<Rightarrow>
          (case JSON_parse parse (jsonText candidates) of
             Throw e \<Rightarrow> (generatedName, generatedTranslation, finalImagePrompt)
           | Return parsedJson \<Rightarrow>
               (case member (Some parsedJson) ''italianName'' of
                  Throw e \<Rightarrow> (generatedName, generatedTranslation, finalImagePrompt)
                | Return italianName \<Rightarrow>
                    (let generatedName = or_else italianName generatedName in
                     case member (Some parsedJson) ''englishTranslation'' of
                       Throw e \<Rightarrow> (generatedName, generatedTranslation, finalImagePrompt)
                     | Return englishTranslation \<Rightarrow>
                         (let generatedTranslation = or_else englishTranslation generatedTranslation in
                          case member (Some parsedJson) ''imagePrompt'' of
                            Throw e \<Rightarrow> (generatedName, generatedTranslation, finalImagePrompt)
                          | Return imagePrompt \<Rightarrow>
                              (generatedName, generatedTranslation,
                               or_else imagePrompt finalImagePrompt))))))"

subsection \<open>Step 1: name and image prompt\<close>

definition GEMINI_API_URL :: "string \<Rightarrow> string" where
  "GEMINI_API_URL API_KEY =
     ''https://generativelanguage.googleapis.com/v1beta/models/gemini-2.5-flash-preview-09-2025:generateContent?key=''
     @ API_KEY"

definition IMAGEN_API_URL :: "string \<Rightarrow> string" where
  "IMAGEN_API_URL API_KEY =
     ''https://generativelanguage.googleapis.com/v1beta/models/imagen-4.0-generate-001:predict?key=''
     @ API_KEY"

text \<open>
  Lines 33 to 60 of the handler. \<^verbatim>\<open>withRetry\<close> is called with its defaults. Should it resolve
  with \<^verbatim>\<open>undefined\<close>, reading \<^verbatim>\<open>ok\<close> throws a TypeError.
\<close>

definition step1 ::
  "(string \<Rightarrow> jsvalue option) \<Rightarrow> (request \<Rightarrow> 'w \<Rightarrow> response completion \<times> 'w) \<Rightarrow> string \<Rightarrow>
   jsvalue option \<Rightarrow> ('w, request) machine \<Rightarrow>
   (jsvalue \<times> jsvalue \<times> jsvalue) completion \<times> ('w, request) machine" where
  "step1 parse fetch API_KEY geminiPayload s =
     (let rq = \<lparr>url = GEMINI_API_URL API_KEY, payload = geminiPayload\<rparr> in
      case withRetry (call rq (fetch rq)) 3 1000 s of
        (Throw e, s') \<Rightarrow> (Throw e, s')
      | (Return None, s') \<Rightarrow> (Throw TypeError, s')
      | (Return (Some geminiResponse), s') \<Rightarrow>
          if \<not> ok geminiResponse then (Throw (api_error ''Gemini API Error: '' geminiResponse), s')
          else
            (case json geminiResponse of
               Throw e \<Rightarrow> (Throw e, s')
             | Return geminiResult \<Rightarrow> (Return (idea parse geminiResult), s')))"

subsection \<open>Step 2: the image\<close>

text \<open>
  \<^verbatim>\<open>
  const imagenPayload = {
    instances: {
      prompt: `Highly cinematic, detailed, and artistic illustration of: ${finalImagePrompt}. Baroque style, golden ratio, dramatic lighting.`,
    },
    parameters: { "sampleCount": 1 },
  };
  \<close>
\<close>

definition imagenPayload :: "string \<Rightarrow> jsvalue" where
  "imagenPayload prompt_text =
     JObject
       [(''instances'',
         JObject
           [(''prompt'',
             JString
               (''Highly cinematic, detailed, and artistic illustration of: '' @ prompt_text @
                ''. Baroque style, golden ratio, dramatic lighting.''))]),
        (''parameters'', JObject [(''sampleCount'', JNumber ''1'')])]"

text \<open>
  Lines 63 to 88, and the template of line 94: the result is the text put after
  \<^verbatim>\<open>data:image/png;base64,\<close>.
\<close>

definition step2 ::
  "(request \<Rightarrow> 'w \<Rightarrow> response completion \<times> 'w) \<Rightarrow> string \<Rightarrow> jsvalue \<Rightarrow>
   ('w, request) machine \<Rightarrow> string completion \<times> ('w, request) machine" where
  "step2 fetch API_KEY finalImagePrompt s =
     (case template (Some finalImagePrompt) of
        Throw e \<Rightarrow> (Throw e, s)
      | Return prompt_text \<Rightarrow>
          (let rq = \<lparr>url = IMAGEN_API_URL API_KEY, payload = Some (imagenPayload prompt_text)\<rparr> in
           case withRetry (call rq (fetch rq)) 3 1000 s of
             (Throw e, s') \<Rightarrow> (Throw e, s')
           | (Return None, s') \<Rightarrow> (Throw TypeError, s')
           | (Return (Some imagenResponse), s') \<Rightarrow>
               if \<not> ok imagenResponse
               then (Throw (api_error ''Imagen API Error: '' imagenResponse), s')
               else
                 (case json imagenResponse of
                    Throw e \<Rightarrow> (Throw e, s')
                  | Return imagenResult \<Rightarrow>
                      (case member (Some imagenResult) ''predictions'' of
                         Throw e \<Rightarrow> (Throw e, s')
                       | Return predictions \<Rightarrow>
                           (let base64Data = opt_member (opt_at0 predictions) ''bytesBase64Encoded'' in
                            if \<not> truthy base64Data
                            then (Throw (Error ''Image generation failed to return data.''), s')
                            else
                              (case template base64Data of
                                 Throw e \<Rightarrow> (Throw e, s')
                               | Return base64_text \<Rightarrow> (Return base64_text, s')))))))"

subsection \<open>\<^verbatim>\<open>handler\<close>\<close>

text \<open>
  The \<^verbatim>\<open>try\<close> block, then the handler around it. \<open>GOOGLE_API_KEY\<close> is
  \<^verbatim>\<open>process.env.GOOGLE_API_KEY\<close>, a string or \<^verbatim>\<open>undefined\<close>. Destructuring \<^verbatim>\<open>req.body\<close> is
  outside the \<^verbatim>\<open>try\<close>: on a missing body the handler itself throws.
\<close>

definition fusion ::
  "(string \<Rightarrow> jsvalue option) \<Rightarrow> (request \<Rightarrow> 'w \<Rightarrow> response completion \<times> 'w) \<Rightarrow> string \<Rightarrow>
   jsvalue option \<Rightarrow> ('w, request) machine \<Rightarrow> reply completion \<times> ('w, request) machine" where
  "fusion parse fetch API_KEY geminiPayload s =
     (case step1 parse fetch API_KEY geminiPayload s of
        (Throw e, s1) \<Rightarrow> (Throw e, s1)
      | (Return (generatedName, generatedTranslation, finalImagePrompt), s1) \<Rightarrow>
          (case step2 fetch API_KEY finalImagePrompt s1 of
             (Throw e, s2) \<Rightarrow> (Throw e, s2)
           | (Return base64_text, s2) \<Rightarrow>
               (Return
                  (FusionReply generatedName generatedTranslation
                     (''data:image/png;base64,'' @ base64_text)),
                s2)))"

definition handler ::
  "(string \<Rightarrow> jsvalue option) \<Rightarrow> (request \<Rightarrow> 'w \<Rightarrow> response completion \<times> 'w) \<Rightarrow> string option \<Rightarrow>
   inbound \<Rightarrow> ('w, request) machine \<Rightarrow> (nat \<times> reply) completion \<times> ('w, request) machine" where
  "handler parse fetch GOOGLE_API_KEY req s =
     (if method req \<noteq> ''POST'' then (Return (405, ErrorReply (Text ''Method Not Allowed'')), s)
      else
        (case GOOGLE_API_KEY of
           None \<Rightarrow> (Return (500, ErrorReply (Text ''API key not configured.'')), s)
         | Some API_KEY \<Rightarrow>
             if API_KEY = [] then (Return (500, ErrorReply (Text ''API key not configured.'')), s)
             else
               (case member (body req) ''geminiPayload'' of
                  Throw e \<Rightarrow> (Throw e, s)
                | Return geminiPayload \<Rightarrow>
                    (case fusion parse fetch API_KEY geminiPayload s of
                       (Return r, s') \<Rightarrow> (Return (200, r), s')
                     | (Throw e, s') \<Rightarrow>
                         (Return
                            (500, ErrorReply (message_or e ''An internal server error occurred.'')),
                          s')))))"

section \<open>A JSON parser and a scripted network\<close>

text \<open>
  The concrete runs below need a parser and a network. \<open>json_parse\<close> parses the JSON texts
  whose values the model has: objects, arrays, strings with the escapes of JSON (a
  \<^verbatim>\<open>\u\<close> escape below 128), integer literals of at most 15 digits (which the runtime
  prints as they are written), \<^verbatim>\<open>true\<close>, \<^verbatim>\<open>false\<close> and \<^verbatim>\<open>null\<close>. A later member of an
  object replaces an earlier one of the same name, in place. The recursion is on a fuel
  argument, which starts at one more than the length of the text.

  It is a parser of a part of JSON, and answers \<open>None\<close> outside that part as well: it is
  applied below to a few short texts without numbers or escapes, and nothing is proved
  from what it does elsewhere. The properties of the handler are proved for every \<open>parse\<close>.
\<close>

definition is_ws :: "char \<Rightarrow> bool" where
  "is_ws c \<longleftrightarrow> c = CHR 0x20 \<or> c = CHR 0x09 \<or> c = CHR 0x0A \<or> c = CHR 0x0D"

definition skip_ws :: "string \<Rightarrow> string" where
  "skip_ws s = dropWhile is_ws s"

definition is_digit :: "char \<Rightarrow> bool" where
  "is_digit c \<longleftrightarrow> (48::nat) \<le> of_char c \<and> of_char c \<le> (57::nat)"

definition hex_value :: "char \<Rightarrow> nat option" where
  "hex_value c =
     (let n = (of_char c :: nat) in
      if 48 \<le> n \<and> n \<le> 57 then Some (n - 48)
      else if 65 \<le> n \<and> n \<le> 70 then Some (n - 55)
      else if 97 \<le> n \<and> n \<le> 102 then Some (n - 87)
      else None)"

definition unescape :: "char \<Rightarrow> char option" where
  "unescape c =
     (if c = CHR 0x22 then Some (CHR 0x22)
      else if c = CHR 0x5C then Some (CHR 0x5C)
      else if c = CHR ''/'' then Some (CHR ''/'')
      else if c = CHR ''b'' then Some (CHR 0x08)
      else if c = CHR ''f'' then Some (CHR 0x0C)
      else if c = CHR ''n'' then Some (CHR 0x0A)
      else if c = CHR ''r'' then Some (CHR 0x0D)
      else if c = CHR ''t'' then Some (CHR 0x09)
      else None)"

definition hex4 :: "char \<Rightarrow> char \<Rightarrow> char \<Rightarrow> char \<Rightarrow> nat option" where
  "hex4 a b c d =
     (case (hex_value a, hex_value b, hex_value c, hex_value d) of
        (Some h3, Some h2, Some h1, Some h0) \<Rightarrow> Some (((h3 * 16 + h2) * 16 + h1) * 16 + h0)
      | _ \<Rightarrow> None)"

text \<open>The characters of a string after its opening quote, up to the closing one.\<close>

fun lex_string :: "string \<Rightarrow> string \<Rightarrow> (string \<times> string) option" where
  "lex_string acc [] = None"
| "lex_string acc (c # cs) =
     (if c = CHR 0x22 then Some (rev acc, cs)
      else if c = CHR 0x5C then
        (case cs of
           [] \<Rightarrow> None
         | e # cs' \<Rightarrow>
             if e = CHR ''u'' then
               (case cs' of
                  h3 # h2 # h1 # h0 # cs'' \<Rightarrow>
                    (case hex4 h3 h2 h1 h0 of
                       None \<Rightarrow> None
                     | Some n \<Rightarrow> if n < 128 then lex_string (char_of n # acc) cs'' else None)
                | _ \<Rightarrow> None)
             else
               (case unescape e of
                  None \<Rightarrow> None
                | Some c' \<Rightarrow> lex_string (c' # acc) cs'))
      else if (of_char c :: nat) < 32 then None
      else lex_string (c # acc) cs)"

definition lex_number :: "string \<Rightarrow> (string \<times> string) option" where
  "lex_number s =
     (let negative = (s \<noteq> [] \<and> hd s = CHR ''-'');
          s1 = (if negative then tl s else s);
          ds = takeWhile is_digit s1;
          r = dropWhile is_digit s1
      in
      if ds = [] \<or> (1 < length ds \<and> hd ds = CHR ''0'') \<or> 15 < length ds then None
      else if r \<noteq> [] \<and> (hd r = CHR ''.'' \<or> hd r = CHR ''e'' \<or> hd r = CHR ''E'') then None
      else Some (if negative \<and> ds \<noteq> ''0'' then CHR ''-'' # ds else ds, r))"

fun parse_value :: "nat \<Rightarrow> string \<Rightarrow> (jsvalue \<times> string) option"
  and parse_elements :: "nat \<Rightarrow> jsvalue list \<Rightarrow> string \<Rightarrow> (jsvalue \<times> string) option"
  and parse_members :: "nat \<Rightarrow> (string \<times> jsvalue) list \<Rightarrow> string \<Rightarrow> (jsvalue \<times> string) option"
  where
  "parse_value 0 s = None"
| "parse_value (Suc n) s =
     (case skip_ws s of
        [] \<Rightarrow> None
      | c # cs \<Rightarrow>
          if c = CHR ''{'' then
            (case skip_ws cs of
               [] \<Rightarrow> None
             | d # ds \<Rightarrow> if d = CHR ''}'' then Some (JObject [], ds) else parse_members n [] (d # ds))
          else if c = CHR ''['' then
            (case skip_ws cs of
               [] \<Rightarrow> None
             | d # ds \<Rightarrow> if d = CHR '']'' then Some (JArray [], ds) else parse_elements n [] (d # ds))
          else if c = CHR 0x22 then
            (case lex_string [] cs of None \<Rightarrow> None | Some (t, r) \<Rightarrow> Some (JString t, r))
          else if take 4 (c # cs) = ''true'' then Some (JBool True, drop 4 (c # cs))
          else if take 5 (c # cs) = ''false'' then Some (JBool False, drop 5 (c # cs))
          else if take 4 (c # cs) = ''null'' then Some (JNull, drop 4 (c # cs))
          else (case lex_number (c # cs) of None \<Rightarrow> None | Some (t, r) \<Rightarrow> Some (JNumber t, r)))"
| "parse_elements 0 acc s = None"
| "parse_elements (Suc n) acc s =
     (case parse_value n s of
        None \<Rightarrow> None
      | Some (v, r) \<Rightarrow>
          (case skip_ws r of
             [] \<Rightarrow> None
           | c # cs \<Rightarrow>
               if c = CHR '','' then parse_elements n (acc @ [v]) cs
               else if c = CHR '']'' then Some (JArray (acc @ [v]), cs)
               else None))"
| "parse_members 0 acc s = None"
| "parse_members (Suc n) acc s =
     (case skip_ws s of
        [] \<Rightarrow> None
      | q # s1 \<Rightarrow>
          if q \<noteq> CHR 0x22 then None
          else
            (case lex_string [] s1 of
               None \<Rightarrow> None
             | Some (k, s2) \<Rightarrow>
                 (case skip_ws s2 of
                    [] \<Rightarrow> None
                  | colon # s3 \<Rightarrow>
                      if colon \<noteq> CHR '':'' then None
                      else
                        (case parse_value n s3 of
                           None \<Rightarrow> None
                         | Some (v, s4) \<Rightarrow>
                             (case skip_ws s4 of
                                [] \<Rightarrow> None
                              | c # cs \<Rightarrow>
                                  if c = CHR '','' then parse_members n (AList.update k v acc) cs
                                  else if c = CHR ''}'' then Some (JObject (AList.update k v acc), cs)
                                  else None)))))"

definition json_parse :: "string \<Rightarrow> jsvalue option" where
  "json_parse s =
     (case parse_value (Suc (length s)) s of
        None \<Rightarrow> None
      | Some (v, r) \<Rightarrow> if skip_ws r = [] then Some v else None)"

text \<open>
  A scripted network: the world is the list of outcomes still to come, one for each
  call, whatever the request; when the script is used up the call is rejected.
\<close>

fun replay :: "request \<Rightarrow> response completion list \<Rightarrow> response completion \<times> response completion list" where
  "replay rq [] = (Throw (Error ''fetch failed''), [])"
| "replay rq (r # rs) = (r, rs)"

section \<open>Concrete runs\<close>

text \<open>
  The values used in the concrete runs: the text of the worked example, a text-model
  response around a text, an image-model response around one prediction, an upstream
  error response, and an inbound POST.
\<close>

definition sample_text :: string where
  \<open>sample_text = ''{"italianName":"Gattociclo","englishTranslation":"Cat-cycle","imagePrompt":"a bicycle with a cat's head"}''\<close>

text \<open>
  Three more texts a text model can return: one that leaves fields out or empty, one
  whose name is not a string, and one whose prompt is an object that has no text.
\<close>

definition partial_text :: string where
  \<open>partial_text = ''{"italianName":"Gattociclo","englishTranslation":""}''\<close>

definition untyped_text :: string where
  \<open>untyped_text = ''{"italianName":true,"englishTranslation":"","imagePrompt":"a cat"}''\<close>


definition envelope :: "string \<Rightarrow> jsvalue" where
  "envelope t =
     JObject [(''candidates'', JArray [JObject [(''content'',
       JObject [(''parts'', JArray [JObject [(''text'', JString t)]])])]])]"

definition text_response :: "string \<Rightarrow> response" where
  "text_response t = \<lparr>ok = True, json = Return (envelope t)\<rparr>"

definition image_response :: "jsvalue \<Rightarrow> response" where
  "image_response prediction =
     \<lparr>ok = True, json = Return (JObject [(''predictions'', JArray [prediction])])\<rparr>"

definition error_response :: "string \<Rightarrow> response" where
  "error_response m =
     \<lparr>ok = False, json = Return (JObject [(''error'', JObject [(''message'', JString m)])])\<rparr>"

definition post :: inbound where
  "post =
     \<lparr>method = ''POST'',
      body = Some (JObject [(''geminiPayload'', JObject [(''contents'', JArray [])])])\<rparr>"

text \<open>
  Shorthand for the two outbound requests, for \<^verbatim>\<open>base64Data\<close> of a stage-2 body that is not
  \<^verbatim>\<open>null\<close>, for the reply of the \<^verbatim>\<open>catch\<close> block, and for a call under the default policy.
\<close>

abbreviation gemini_request :: "string \<Rightarrow> jsvalue option \<Rightarrow> request" where
  "gemini_request k gp \<equiv> \<lparr>url = GEMINI_API_URL k, payload = gp\<rparr>"

abbreviation imagen_request :: "string \<Rightarrow> string \<Rightarrow> request" where
  "imagen_request k prompt_text \<equiv>
     \<lparr>url = IMAGEN_API_URL k, payload = Some (imagenPayload prompt_text)\<rparr>"

abbreviation base64Data :: "jsvalue \<Rightarrow> jsvalue option" where
  "base64Data imagenResult \<equiv>
     opt_member (opt_at0 (get imagenResult ''predictions'')) ''bytesBase64Encoded''"

abbreviation failed :: "js_error \<Rightarrow> (nat \<times> reply) completion" where
  "failed e \<equiv> Return (500, ErrorReply (message_or e ''An internal server error occurred.''))"

abbreviation retried ::
  "(request \<Rightarrow> 'w \<Rightarrow> response completion \<times> 'w) \<Rightarrow> request \<Rightarrow> ('w, request) machine \<Rightarrow>
   response option completion \<times> ('w, request) machine" where
  "retried fetch rq s \<equiv> withRetry (call rq (fetch rq)) 3 1000 s"

section \<open>Properties of \<^verbatim>\<open>withRetry\<close>\<close>

lemma calls_append: "calls (xs @ ys) = calls xs + calls ys"
  by (simp add: calls_def)

lemma sleeps_append: "sleeps (xs @ ys) = sleeps xs @ sleeps ys"
  by (simp add: sleeps_def)

lemma calls_attempts: "calls (attempts c delay i n) = n"
  by (induction n arbitrary: i) (simp_all add: calls_def)

lemma sleeps_attempts: "sleeps (attempts c delay i n) = map (\<lambda>j. delay * 2 ^ j) [i..<i + n]"
proof (induction n arbitrary: i)
  case 0
  show ?case by (simp add: sleeps_def)
next
  case (Suc n)
  have "sleeps (attempts c delay i (Suc n)) = (delay * 2 ^ i) # sleeps (attempts c delay (Suc i) n)"
    by (simp add: sleeps_def)
  also have "\<dots> = (delay * 2 ^ i) # map (\<lambda>j. delay * 2 ^ j) [Suc i..<Suc i + n]"
    by (simp only: Suc.IH)
  also have "\<dots> = map (\<lambda>j. delay * 2 ^ j) [i..<i + Suc n]"
    by (simp add: upt_conv_Cons)
  finally show ?case .
qed


text \<open>The loop is unfolded one iteration at a time.\<close>

declare withRetry_from.simps [simp del]

lemma withRetry_from_done:
  "\<not> i < maxRetries \<Longrightarrow> withRetry_from i fn maxRetries delay s = (Return None, s)"
  by (simp add: withRetry_from.simps)

lemma withRetry_from_Return:
  "i < maxRetries \<Longrightarrow> fn s = (Return v, s') \<Longrightarrow>
   withRetry_from i fn maxRetries delay s = (Return (Some v), s')"
  by (simp add: withRetry_from.simps)

lemma withRetry_from_last:
  "i < maxRetries \<Longrightarrow> fn s = (Throw e, s') \<Longrightarrow> i = maxRetries - 1 \<Longrightarrow>
   withRetry_from i fn maxRetries delay s = (Throw e, s')"
  by (simp add: withRetry_from.simps)

lemma withRetry_from_again:
  "i < maxRetries \<Longrightarrow> fn s = (Throw e, s') \<Longrightarrow> i \<noteq> maxRetries - 1 \<Longrightarrow>
   withRetry_from i fn maxRetries delay s =
   withRetry_from (i + 1) fn maxRetries delay (sleep (delay * 2 ^ nat i) s')"
  by (simp add: withRetry_from.simps)

lemma call_eq:
  "f w = (r, w') \<Longrightarrow> call c f \<lparr>world = w, trace = tr\<rparr> = (r, \<lparr>world = w', trace = tr @ [Call c]\<rparr>)"
  by (simp add: call_def)

lemma loop_succeeds:
  "runs f w (Suc k) = map Throw es @ [Return v] \<Longrightarrow> length es = k \<Longrightarrow> int i + int k < maxRetries \<Longrightarrow>
   withRetry_from (int i) (call c f) maxRetries delay \<lparr>world = w, trace = tr\<rparr> =
   (Return (Some v), \<lparr>world = world_after f w (Suc k), trace = tr @ attempts c delay i k @ [Call c]\<rparr>)"
proof (induction k arbitrary: i w tr es)
  case 0
  obtain r w' where fw: "f w = (r, w')" by (cases "f w")
  with 0 have r: "r = Return v" by simp
  have "call c f \<lparr>world = w, trace = tr\<rparr> = (Return v, \<lparr>world = w', trace = tr @ [Call c]\<rparr>)"
    using fw r by (simp add: call_eq)
  moreover have "int i < maxRetries" using 0 by simp
  ultimately show ?case using fw by (simp add: withRetry_from_Return)
next
  case (Suc k)
  obtain r w' where fw: "f w = (r, w')" by (cases "f w")
  from Suc.prems(2) obtain e es' where es: "es = e # es'" and len: "length es' = k"
    by (cases es) auto
  from Suc.prems(1) fw es have r: "r = Throw e"
    and rest: "runs f w' (Suc k) = map Throw es' @ [Return v]"
    by simp_all
  have c: "call c f \<lparr>world = w, trace = tr\<rparr> = (Throw e, \<lparr>world = w', trace = tr @ [Call c]\<rparr>)"
    using fw r by (simp add: call_eq)
  have lt: "int i < maxRetries" and ne: "int i \<noteq> maxRetries - 1"
    and lt': "int (Suc i) + int k < maxRetries"
    using Suc.prems(3) by simp_all
  have "withRetry_from (int i) (call c f) maxRetries delay \<lparr>world = w, trace = tr\<rparr> =
        withRetry_from (int i + 1) (call c f) maxRetries delay
          (sleep (delay * 2 ^ nat (int i)) \<lparr>world = w', trace = tr @ [Call c]\<rparr>)"
    using lt c ne by (rule withRetry_from_again [where fn = "call c f"])
  also have "\<dots> = withRetry_from (int (Suc i)) (call c f) maxRetries delay
          \<lparr>world = w', trace = tr @ [Call c, Sleep (delay * 2 ^ i)]\<rparr>"
    by (simp add: sleep_def add.commute)
  also have "\<dots> = (Return (Some v), \<lparr>world = world_after f w' (Suc k),
          trace = (tr @ [Call c, Sleep (delay * 2 ^ i)]) @ attempts c delay (Suc i) k @ [Call c]\<rparr>)"
    by (rule Suc.IH [OF rest len lt'])
  finally show ?case using fw by simp
qed

lemma loop_exhausted:
  "runs f w (Suc k) = map Throw es \<Longrightarrow> maxRetries = int i + int k + 1 \<Longrightarrow>
   withRetry_from (int i) (call c f) maxRetries delay \<lparr>world = w, trace = tr\<rparr> =
   (Throw (last es), \<lparr>world = world_after f w (Suc k), trace = tr @ attempts c delay i k @ [Call c]\<rparr>)"
proof (induction k arbitrary: i w tr es)
  case 0
  obtain r w' where fw: "f w = (r, w')" by (cases "f w")
  from 0(1) fw obtain e where es: "es = [e]" and r: "r = Throw e"
    by (cases es) auto
  have c: "call c f \<lparr>world = w, trace = tr\<rparr> = (Throw e, \<lparr>world = w', trace = tr @ [Call c]\<rparr>)"
    using fw r by (simp add: call_eq)
  have "int i < maxRetries" "int i = maxRetries - 1" using 0(2) by simp_all
  then show ?case using c fw es by (simp add: withRetry_from_last)
next
  case (Suc k)
  obtain r w' where fw: "f w = (r, w')" by (cases "f w")
  from Suc.prems(1) fw obtain e es' where es: "es = e # es'" and r: "r = Throw e"
    and rest: "runs f w' (Suc k) = map Throw es'"
    by (cases es) auto
  from rest have ne': "es' \<noteq> []" by (cases "f w'") auto
  have c: "call c f \<lparr>world = w, trace = tr\<rparr> = (Throw e, \<lparr>world = w', trace = tr @ [Call c]\<rparr>)"
    using fw r by (simp add: call_eq)
  have lt: "int i < maxRetries" and ne: "int i \<noteq> maxRetries - 1"
    and eq': "maxRetries = int (Suc i) + int k + 1"
    using Suc.prems(2) by simp_all
  have "withRetry_from (int i) (call c f) maxRetries delay \<lparr>world = w, trace = tr\<rparr> =
        withRetry_from (int i + 1) (call c f) maxRetries delay
          (sleep (delay * 2 ^ nat (int i)) \<lparr>world = w', trace = tr @ [Call c]\<rparr>)"
    using lt c ne by (rule withRetry_from_again [where fn = "call c f"])
  also have "\<dots> = withRetry_from (int (Suc i)) (call c f) maxRetries delay
          \<lparr>world = w', trace = tr @ [Call c, Sleep (delay * 2 ^ i)]\<rparr>"
    by (simp add: sleep_def add.commute)
  also have "\<dots> = (Throw (last es'), \<lparr>world = world_after f w' (Suc k),
          trace = (tr @ [Call c, Sleep (delay * 2 ^ i)]) @ attempts c delay (Suc i) k @ [Call c]\<rparr>)"
    by (rule Suc.IH [OF rest eq'])
  finally show ?case using fw es ne' by simp
qed


section \<open>Properties of the handler\<close>

lemma member_Some: "member (Some v) k = (if v = JNull then Throw TypeError else Return (get v k))"
  by (cases v) simp_all

lemma withRetry_first:
  assumes "f (world s) = (Return r, w')" and "0 < maxRetries"
  shows "withRetry (call c f) maxRetries delay s =
         (Return (Some r), \<lparr>world = w', trace = trace s @ [Call c]\<rparr>)"
proof -
  have "call c f s = (Return r, \<lparr>world = w', trace = trace s @ [Call c]\<rparr>)"
    using assms(1) by (simp add: call_def)
  then show ?thesis
    using assms(2) by (simp add: withRetry_def withRetry_from_Return)
qed

lemma truthy_or_else: "truthy (Some d) \<Longrightarrow> truthy (Some (or_else v d))"
  by (cases v) simp_all

lemma idea_fallback:
  assumes "jsonText (get g ''candidates'') = None \<or>
           (\<exists>t. jsonText (get g ''candidates'') = Some (JString t) \<and> parse t = None)"
  shows "idea parse g =
         (JString ''Il Creato Senza Nome'', JString ''The Unnamed Creation'',
          JString ''A surreal hybrid creature, vibrant colors, baroque illustration, octane render.'')"
proof (cases "g = JNull")
  case True
  then show ?thesis by (simp add: idea_def)
next
  case False
  then have m: "member (Some g) ''candidates'' = Return (get g ''candidates'')"
    by (simp add: member_Some)
  from assms have "\<exists>e. JSON_parse parse (jsonText (get g ''candidates'')) = Throw e"
    by auto
  then obtain e where "JSON_parse parse (jsonText (get g ''candidates'')) = Throw e" ..
  with m show ?thesis by (simp add: idea_def)
qed

lemma idea_parsed:
  assumes "member (Some g) ''candidates'' = Return c"
    and "JSON_parse parse (jsonText c) = Return parsedJson"
  shows "idea parse g =
         (or_else (get parsedJson ''italianName'') (JString ''Il Creato Senza Nome''),
          or_else (get parsedJson ''englishTranslation'') (JString ''The Unnamed Creation''),
          or_else (get parsedJson ''imagePrompt'')
            (JString ''A surreal hybrid creature, vibrant colors, baroque illustration, octane render.''))"
  using assms by (cases "parsedJson = JNull") (simp_all add: idea_def member_Some)

lemma idea_truthy:
  assumes "idea parse g = (n, t, p)"
  shows "truthy (Some n) \<and> truthy (Some t) \<and> truthy (Some p)"
proof -
  have "truthy (Some (fst (idea parse g))) \<and> truthy (Some (fst (snd (idea parse g))))
        \<and> truthy (Some (snd (snd (idea parse g))))"
    by (simp add: idea_def Let_def truthy_or_else split: completion.splits)
  with assms show ?thesis by simp
qed

lemma handler_reached:
  assumes "method req = ''POST''" and "k \<noteq> []"
    and "member (body req) ''geminiPayload'' = Return gp"
  shows "handler parse fetch (Some k) req s =
         (case fusion parse fetch k gp s of
            (Return r, s') \<Rightarrow> (Return (200, r), s')
          | (Throw e, s') \<Rightarrow>
              (Return (500, ErrorReply (message_or e ''An internal server error occurred.'')), s'))"
  using assms by (simp add: handler_def)

lemma step1_response:
  assumes "withRetry (call \<lparr>url = GEMINI_API_URL k, payload = gp\<rparr>
             (fetch \<lparr>url = GEMINI_API_URL k, payload = gp\<rparr>)) 3 1000 s = (Return (Some r), s1)"
  shows "step1 parse fetch k gp s =
         (if \<not> ok r then (Throw (api_error ''Gemini API Error: '' r), s1)
          else (case json r of Throw e \<Rightarrow> (Throw e, s1) | Return g \<Rightarrow> (Return (idea parse g), s1)))"
  using assms by (simp add: step1_def)


lemma step2_response:
  assumes "template (Some p) = Return pt"
    and "withRetry (call \<lparr>url = IMAGEN_API_URL k, payload = Some (imagenPayload pt)\<rparr>
             (fetch \<lparr>url = IMAGEN_API_URL k, payload = Some (imagenPayload pt)\<rparr>)) 3 1000 s1 =
         (Return (Some r), s2)"
  shows "step2 fetch k p s1 =
         (if \<not> ok r then (Throw (api_error ''Imagen API Error: '' r), s2)
          else
            (case json r of
               Throw e \<Rightarrow> (Throw e, s2)
             | Return v \<Rightarrow>
                 (case member (Some v) ''predictions'' of
                    Throw e \<Rightarrow> (Throw e, s2)
                  | Return predictions \<Rightarrow>
                      if \<not> truthy (opt_member (opt_at0 predictions) ''bytesBase64Encoded'')
                      then (Throw (Error ''Image generation failed to return data.''), s2)
                      else
                        (case template (opt_member (opt_at0 predictions) ''bytesBase64Encoded'') of
                           Throw e \<Rightarrow> (Throw e, s2)
                         | Return b \<Rightarrow> (Return b, s2)))))"
  using assms by (simp add: step2_def Let_def del: template.simps split: completion.splits)


lemmas run_defs =
  handler_def fusion_def step1_def step2_def withRetry_def withRetry_from.simps call_def sleep_def
  api_error_def idea_def jsonText_def imagenPayload_def GEMINI_API_URL_def IMAGEN_API_URL_def

lemma member_post: "member (body post) ''geminiPayload'' = Return (Some (JObject [(''contents'', JArray [])]))"
  by (simp add: post_def)

lemma retried_exhausted:
  assumes "runs (fetch rq) (world s) 3 = [Throw e1, Throw e2, Throw e3]"
  shows "retried fetch rq s =
         (Throw e3,
          \<lparr>world = world_after (fetch rq) (world s) 3,
           trace = trace s @ [Call rq, Sleep 1000, Call rq, Sleep 2000, Call rq]\<rparr>)"
proof -
  obtain w tr where s: "s = \<lparr>world = w, trace = tr\<rparr>" by (cases s)
  have r: "runs (fetch rq) w (Suc 2) = map Throw [e1, e2, e3]"
    using assms by (simp add: s eval_nat_numeral)
  have "withRetry_from (int 0) (call rq (fetch rq)) 3 1000 \<lparr>world = w, trace = tr\<rparr> =
        (Throw (last [e1, e2, e3]), \<lparr>world = world_after (fetch rq) w (Suc 2),
          trace = tr @ attempts rq 1000 0 2 @ [Call rq]\<rparr>)"
    using r by (rule loop_exhausted) simp
  then show ?thesis
    by (simp add: withRetry_def s eval_nat_numeral)
qed

lemma retried_answered:
  assumes "runs (fetch rq) (world s) (Suc j) = map Throw es @ [Return r]"
    and "length es = j" and "j < 3"
  shows "retried fetch rq s =
         (Return (Some r),
          \<lparr>world = world_after (fetch rq) (world s) (Suc j),
           trace = trace s @ attempts rq 1000 0 j @ [Call rq]\<rparr>)"
proof -
  obtain w tr where s: "s = \<lparr>world = w, trace = tr\<rparr>" by (cases s)
  have "withRetry_from (int 0) (call rq (fetch rq)) 3 1000 \<lparr>world = w, trace = tr\<rparr> =
        (Return (Some r), \<lparr>world = world_after (fetch rq) w (Suc j),
          trace = tr @ attempts rq 1000 0 j @ [Call rq]\<rparr>)"
    using assms unfolding s by (intro loop_succeeds) simp_all
  then show ?thesis
    by (simp add: withRetry_def s)
qed

lemma retried_replay:
  "retried replay rq \<lparr>world = Return r # rs, trace = tr\<rparr> =
   (Return (Some r), \<lparr>world = rs, trace = tr @ [Call rq]\<rparr>)"
  by (simp add: withRetry_first)

lemma jsonText_not_null: "jsonText (get g ''candidates'') = Some x \<Longrightarrow> g \<noteq> JNull"
  by (auto simp add: jsonText_def)

lemma jsonText_envelope: "jsonText (get (envelope t) ''candidates'') = Some (JString t)"
  by (simp add: envelope_def jsonText_def)

lemma member_envelope:
  "member (Some (envelope t)) ''candidates'' = Return (get (envelope t) ''candidates'')"
  by (simp add: envelope_def)




lemma handler_step1_Throw:
  assumes "method req = ''POST''" and "k \<noteq> []"
    and "member (body req) ''geminiPayload'' = Return gp"
    and "step1 parse fetch k gp s = (Throw e, s1)"
  shows "handler parse fetch (Some k) req s =
         (Return (500, ErrorReply (message_or e ''An internal server error occurred.'')), s1)"
  using assms(4) by (simp add: handler_reached [OF assms(1,2,3)] fusion_def)




text \<open>The parser and step 1 on the texts of the concrete runs.\<close>

lemma parse_sample_text:
  "json_parse sample_text =
   Some (JObject
     [(''italianName'', JString ''Gattociclo''),
      (''englishTranslation'', JString ''Cat-cycle''),
      (''imagePrompt'', JString ''a bicycle with a cat's head'')])"
  unfolding sample_text_def by code_simp

lemma parse_not_json: "json_parse ''not json'' = None"
  by code_simp

lemma parse_partial_text:
  "json_parse partial_text =
   Some (JObject [(''italianName'', JString ''Gattociclo''), (''englishTranslation'', JString '''')])"
  unfolding partial_text_def by code_simp

lemma parse_untyped_text:
  "json_parse untyped_text =
   Some (JObject [(''italianName'', JBool True), (''englishTranslation'', JString ''''),
                  (''imagePrompt'', JString ''a cat'')])"
  unfolding untyped_text_def by code_simp


lemma step1_sample:
  "step1 json_parse replay ''key'' gp \<lparr>world = Return (text_response sample_text) # rs, trace = []\<rparr> =
   (Return (JString ''Gattociclo'', JString ''Cat-cycle'', JString ''a bicycle with a cat's head''),
    \<lparr>world = rs, trace = [Call (gemini_request ''key'' gp)]\<rparr>)"
proof -
  have m: "member (Some (envelope sample_text)) ''candidates'' =
      Return (get (envelope sample_text) ''candidates'')"
    by (simp add: envelope_def)
  have p: "JSON_parse json_parse (jsonText (get (envelope sample_text) ''candidates'')) =
      Return (JObject
        [(''italianName'', JString ''Gattociclo''),
         (''englishTranslation'', JString ''Cat-cycle''),
         (''imagePrompt'', JString ''a bicycle with a cat's head'')])"
    by (simp add: jsonText_envelope parse_sample_text)
  have "idea json_parse (envelope sample_text) =
      (JString ''Gattociclo'', JString ''Cat-cycle'', JString ''a bicycle with a cat's head'')"
    by (simp add: idea_parsed [OF m p])
  then show ?thesis
    by (simp add: step1_response [where fetch = replay, OF retried_replay] text_response_def)
qed

section \<open>The claims\<close>

subsection \<open>Claim C1\<close>

text \<open>
  Claim C1, as stated, fails. The claim is that a stage-1 call answered with a non-success
  status is re-attempted up to the retry cap before its error surfaces. Here the text model
  answers every call with a non-success status and the message \<^verbatim>\<open>boom\<close>: the handler makes
  one call, requests no pause, leaves the other two answers unread and replies 500 with
  \<^verbatim>\<open>Gemini API Error: boom\<close>. The check of \<^verbatim>\<open>ok\<close> and the \<^verbatim>\<open>throw\<close> come after \<^verbatim>\<open>withRetry\<close> has
  returned; a response with a non-success status is a value \<^verbatim>\<open>fetch\<close> resolves with.
\<close>

theorem non_ok_response_retried_counterexample:
  "fst (handler json_parse replay (Some ''key'') post
     \<lparr>world = [Return (error_response ''boom''), Return (error_response ''boom''),
               Return (error_response ''boom'')], trace = []\<rparr>) =
     Return (500, ErrorReply (Text ''Gemini API Error: boom''))
   \<and> calls (trace (snd (handler json_parse replay (Some ''key'') post
     \<lparr>world = [Return (error_response ''boom''), Return (error_response ''boom''),
               Return (error_response ''boom'')], trace = []\<rparr>))) = 1
   \<and> sleeps (trace (snd (handler json_parse replay (Some ''key'') post
     \<lparr>world = [Return (error_response ''boom''), Return (error_response ''boom''),
               Return (error_response ''boom'')], trace = []\<rparr>))) = []
   \<and> world (snd (handler json_parse replay (Some ''key'') post
     \<lparr>world = [Return (error_response ''boom''), Return (error_response ''boom''),
               Return (error_response ''boom'')], trace = []\<rparr>)) =
     [Return (error_response ''boom''), Return (error_response ''boom'')]"
proof -
  have "handler json_parse replay (Some ''key'') post
     \<lparr>world = [Return (error_response ''boom''), Return (error_response ''boom''),
               Return (error_response ''boom'')], trace = []\<rparr> =
     (Return (500, ErrorReply (Text ''Gemini API Error: boom'')),
      \<lparr>world = [Return (error_response ''boom''), Return (error_response ''boom'')],
       trace = [Call (gemini_request ''key'' (Some (JObject [(''contents'', JArray [])])))]\<rparr>)"
    by (simp add: run_defs post_def error_response_def)
  then show ?thesis by (simp add: calls_def sleeps_def)
qed

text \<open>
  Claim C1, amended. Let the stage-1 call be rejected \<open>j\<close> times, \<open>j < 3\<close>, and then be
  answered with a response that is not ok. That response is what \<^verbatim>\<open>withRetry\<close> returns: the
  handler has made \<open>j + 1\<close> calls, one for each rejection and the one answered, with a pause
  after each rejection and none after the answer, when it replies 500 with the error of
  lines 42 and 43. That error is \<^verbatim>\<open>Gemini API Error: \<close> followed by the text of
  \<^verbatim>\<open>err.error.message\<close>, which is \<^verbatim>\<open>undefined\<close> when the error object has no message; it is the
  runtime's TypeError when the body is \<^verbatim>\<open>null\<close> or has no error object, the error of the
  conversion when the message has no text, and the error of \<^verbatim>\<open>json()\<close> when the body cannot
  be read.
\<close>

theorem non_ok_response_not_retried:
  assumes "method req = ''POST''" and "k \<noteq> []"
    and "member (body req) ''geminiPayload'' = Return gp"
    and "runs (fetch (gemini_request k gp)) (world s) (Suc j) = map Throw es @ [Return r]"
    and "length es = j" and "j < 3" and "\<not> ok r"
  shows
    "handler parse fetch (Some k) req s =
       (failed (api_error ''Gemini API Error: '' r),
        \<lparr>world = world_after (fetch (gemini_request k gp)) (world s) (Suc j),
         trace = trace s @ attempts (gemini_request k gp) 1000 0 j @ [Call (gemini_request k gp)]\<rparr>)
     \<and> calls (attempts (gemini_request k gp) 1000 0 j @ [Call (gemini_request k gp)]) = j + 1
     \<and> sleeps (attempts (gemini_request k gp) 1000 0 j @ [Call (gemini_request k gp)]) =
         map (\<lambda>i. 1000 * 2 ^ i) [0..<j]
     \<and> (\<forall>err e m t. json r = Return err \<and> get err ''error'' = Some e
            \<and> get e ''message'' = Some m \<and> template (Some m) = Return t \<longrightarrow>
          failed (api_error ''Gemini API Error: '' r) =
            Return (500, ErrorReply (Text (''Gemini API Error: '' @ t))))
     \<and> (\<forall>err e. json r = Return err \<and> get err ''error'' = Some e \<and> e \<noteq> JNull
            \<and> get e ''message'' = None \<longrightarrow>
          failed (api_error ''Gemini API Error: '' r) =
            Return (500, ErrorReply (Text ''Gemini API Error: undefined'')))
     \<and> (\<forall>err e m x. json r = Return err \<and> get err ''error'' = Some e
            \<and> get e ''message'' = Some m \<and> template (Some m) = Throw x \<longrightarrow>
          failed (api_error ''Gemini API Error: '' r) = failed x)
     \<and> (\<forall>err. json r = Return err
            \<and> (err = JNull \<or> get err ''error'' = None \<or> get err ''error'' = Some JNull) \<longrightarrow>
          failed (api_error ''Gemini API Error: '' r) = Return (500, ErrorReply TypeError_message))
     \<and> (\<forall>x. json r = Throw x \<longrightarrow> failed (api_error ''Gemini API Error: '' r) = failed x)"
    (is "?reply \<and> ?calls \<and> ?sleeps \<and> ?M1 \<and> ?M2 \<and> ?M3 \<and> ?M4 \<and> ?M5")
proof -
  have "retried fetch (gemini_request k gp) s =
        (Return (Some r),
         \<lparr>world = world_after (fetch (gemini_request k gp)) (world s) (Suc j),
          trace = trace s @ attempts (gemini_request k gp) 1000 0 j @ [Call (gemini_request k gp)]\<rparr>)"
    using assms(4,5,6) by (rule retried_answered [where fetch = fetch])
  then have "step1 parse fetch k gp s =
        (Throw (api_error ''Gemini API Error: '' r),
         \<lparr>world = world_after (fetch (gemini_request k gp)) (world s) (Suc j),
          trace = trace s @ attempts (gemini_request k gp) 1000 0 j @ [Call (gemini_request k gp)]\<rparr>)"
    using assms(7) by (simp add: step1_response)
  then have reply: ?reply
    by (rule handler_step1_Throw [OF assms(1,2,3)])
  have count: ?calls
    by (simp add: calls_append calls_attempts) (simp add: calls_def)
  have pauses: ?sleeps
    by (simp add: sleeps_append sleeps_attempts) (simp add: sleeps_def)
  have M1: ?M1
  proof (intro allI impI)
    fix err e m t
    assume a: "json r = Return err \<and> get err ''error'' = Some e
        \<and> get e ''message'' = Some m \<and> template (Some m) = Return t"
    then have "err \<noteq> JNull" and "e \<noteq> JNull" by auto
    with a have "api_error ''Gemini API Error: '' r = Error (''Gemini API Error: '' @ t)"
      by (simp add: api_error_def member_Some del: template.simps)
    then show "failed (api_error ''Gemini API Error: '' r) =
        Return (500, ErrorReply (Text (''Gemini API Error: '' @ t)))"
      by simp
  qed
  have M2: ?M2
  proof (intro allI impI)
    fix err e
    assume a: "json r = Return err \<and> get err ''error'' = Some e \<and> e \<noteq> JNull
        \<and> get e ''message'' = None"
    then have "err \<noteq> JNull" by auto
    with a have "api_error ''Gemini API Error: '' r = Error (''Gemini API Error: '' @ ''undefined'')"
      by (simp add: api_error_def member_Some)
    then show "failed (api_error ''Gemini API Error: '' r) =
        Return (500, ErrorReply (Text ''Gemini API Error: undefined''))"
      by simp
  qed
  have M3: ?M3
  proof (intro allI impI)
    fix err e m x
    assume a: "json r = Return err \<and> get err ''error'' = Some e
        \<and> get e ''message'' = Some m \<and> template (Some m) = Throw x"
    then have "err \<noteq> JNull" and "e \<noteq> JNull" by auto
    with a have "api_error ''Gemini API Error: '' r = x"
      by (simp add: api_error_def member_Some del: template.simps)
    then show "failed (api_error ''Gemini API Error: '' r) = failed x"
      by simp
  qed
  have M4: ?M4
  proof (intro allI impI)
    fix err
    assume a: "json r = Return err
        \<and> (err = JNull \<or> get err ''error'' = None \<or> get err ''error'' = Some JNull)"
    then have "api_error ''Gemini API Error: '' r = TypeError"
      by (cases "err = JNull") (auto simp add: api_error_def member_Some)
    then show "failed (api_error ''Gemini API Error: '' r) = Return (500, ErrorReply TypeError_message)"
      by simp
  qed
  have M5: ?M5
    by (simp add: api_error_def)
  from reply count pauses M1 M2 M3 M4 M5 show ?thesis by blast
qed

text \<open>
  Claim C1, amended, on concrete runs: the first call is rejected and the second answered
  with a non-success status and the message \<^verbatim>\<open>quota exceeded\<close>, which makes two calls and
  one pause; then first calls answered with a non-success status and the bodies
  \<^verbatim>\<open>{ error: {} }\<close>, \<^verbatim>\<open>{ error: { message: { toString: true } } }\<close>, \<^verbatim>\<open>{}\<close>, and one that cannot be
  read.
\<close>

theorem non_ok_response_not_retried_witness:
  "handler json_parse replay (Some ''key'') post
     \<lparr>world = [Throw (Error ''reset''), Return (error_response ''quota exceeded''),
               Return (text_response sample_text)], trace = []\<rparr> =
   (Return (500, ErrorReply (Text ''Gemini API Error: quota exceeded'')),
    \<lparr>world = [Return (text_response sample_text)],
     trace = [Call (gemini_request ''key'' (Some (JObject [(''contents'', JArray [])]))), Sleep 1000,
              Call (gemini_request ''key'' (Some (JObject [(''contents'', JArray [])])))]\<rparr>)
   \<and> handler json_parse replay (Some ''key'') post
     \<lparr>world = [Return \<lparr>ok = False, json = Return (JObject [(''error'', JObject [])])\<rparr>], trace = []\<rparr> =
   (Return (500, ErrorReply (Text ''Gemini API Error: undefined'')),
    \<lparr>world = [],
     trace = [Call (gemini_request ''key'' (Some (JObject [(''contents'', JArray [])])))]\<rparr>)
   \<and> handler json_parse replay (Some ''key'') post
     \<lparr>world = [Return \<lparr>ok = False, json = Return (JObject [(''error'',
                 JObject [(''message'', JObject [(''toString'', JBool True)])])])\<rparr>], trace = []\<rparr> =
   (Return (500, ErrorReply TypeError_message),
    \<lparr>world = [],
     trace = [Call (gemini_request ''key'' (Some (JObject [(''contents'', JArray [])])))]\<rparr>)
   \<and> handler json_parse replay (Some ''key'') post
     \<lparr>world = [Return \<lparr>ok = False, json = Return (JObject [])\<rparr>], trace = []\<rparr> =
   (Return (500, ErrorReply TypeError_message),
    \<lparr>world = [],
     trace = [Call (gemini_request ''key'' (Some (JObject [(''contents'', JArray [])])))]\<rparr>)
   \<and> handler json_parse replay (Some ''key'') post
     \<lparr>world = [Return \<lparr>ok = False, json = Throw SyntaxError\<rparr>], trace = []\<rparr> =
   (Return (500, ErrorReply SyntaxError_message),
    \<lparr>world = [],
     trace = [Call (gemini_request ''key'' (Some (JObject [(''contents'', JArray [])])))]\<rparr>)"
  (is "?A \<and> ?B \<and> ?C \<and> ?D \<and> ?E")
proof -
  let ?gp = "Some (JObject [(''contents'', JArray [])])"
  let ?g = "gemini_request ''key'' ?gp"
  have h1: "method post = ''POST''" by (simp add: post_def)
  have h2: "''key'' \<noteq> []" by simp
  have one: "runs (replay ?g) (world \<lparr>world = [Return x], trace = ([] :: request event list)\<rparr>) (Suc 0) =
      map Throw [] @ [Return x]" for x
    by simp
  have len0: "length ([] :: js_error list) = 0" by simp
  have lt0: "(0::nat) < 3" by simp
  note inst = non_ok_response_not_retried [where parse = json_parse and fetch = replay,
      OF h1 h2 member_post]
  have two: "runs (replay ?g)
        (world \<lparr>world = [Throw (Error ''reset''), Return (error_response ''quota exceeded''),
                         Return (text_response sample_text)], trace = ([] :: request event list)\<rparr>)
        (Suc 1) = map Throw [Error ''reset''] @ [Return (error_response ''quota exceeded'')]"
    by simp
  have len1: "length [Error ''reset''] = 1" by simp
  have lt1: "(1::nat) < 3" by simp
  have bad: "\<not> ok (error_response ''quota exceeded'')" by (simp add: error_response_def)
  note a = inst [OF two len1 lt1 bad]
  have am: "json (error_response ''quota exceeded'') =
        Return (JObject [(''error'', JObject [(''message'', JString ''quota exceeded'')])])
      \<and> get (JObject [(''error'', JObject [(''message'', JString ''quota exceeded'')])]) ''error'' =
        Some (JObject [(''message'', JString ''quota exceeded'')])
      \<and> get (JObject [(''message'', JString ''quota exceeded'')]) ''message'' =
        Some (JString ''quota exceeded'')
      \<and> template (Some (JString ''quota exceeded'')) = Return ''quota exceeded''"
    by (simp add: error_response_def)
  have A: ?A
    using a [THEN conjunct1]
      a [THEN conjunct2, THEN conjunct2, THEN conjunct2, THEN conjunct1, rule_format, OF am]
    by simp
  let ?rb = "\<lparr>ok = False, json = Return (JObject [(''error'', JObject [])])\<rparr>"
  have nb: "\<not> ok ?rb" by simp
  note b = inst [OF one [of "?rb"] len0 lt0 nb]
  have bm: "json ?rb = Return (JObject [(''error'', JObject [])])
      \<and> get (JObject [(''error'', JObject [])]) ''error'' = Some (JObject [])
      \<and> JObject [] \<noteq> JNull \<and> get (JObject []) ''message'' = None"
    by simp
  have B: ?B
    using b [THEN conjunct1]
      b [THEN conjunct2, THEN conjunct2, THEN conjunct2, THEN conjunct2, THEN conjunct1,
         rule_format, OF bm]
    by simp
  let ?rc = "\<lparr>ok = False, json = Return (JObject [(''error'',
                 JObject [(''message'', JObject [(''toString'', JBool True)])])])\<rparr>"
  have nc: "\<not> ok ?rc" by simp
  note c = inst [OF one [of "?rc"] len0 lt0 nc]
  have cm: "json ?rc = Return (JObject [(''error'',
                 JObject [(''message'', JObject [(''toString'', JBool True)])])])
      \<and> get (JObject [(''error'', JObject [(''message'', JObject [(''toString'', JBool True)])])])
          ''error'' = Some (JObject [(''message'', JObject [(''toString'', JBool True)])])
      \<and> get (JObject [(''message'', JObject [(''toString'', JBool True)])]) ''message'' =
          Some (JObject [(''toString'', JBool True)])
      \<and> template (Some (JObject [(''toString'', JBool True)])) = Throw TypeError"
    by simp
  have C: ?C
    using c [THEN conjunct1]
      c [THEN conjunct2, THEN conjunct2, THEN conjunct2, THEN conjunct2, THEN conjunct2,
         THEN conjunct1, rule_format, OF cm]
    by simp
  let ?rd = "\<lparr>ok = False, json = Return (JObject [])\<rparr>"
  have nd: "\<not> ok ?rd" by simp
  note d = inst [OF one [of "?rd"] len0 lt0 nd]
  have dm: "json ?rd = Return (JObject [])
      \<and> (JObject [] = JNull \<or> get (JObject []) ''error'' = None
          \<or> get (JObject []) ''error'' = Some JNull)"
    by simp
  have D: ?D
    using d [THEN conjunct1]
      d [THEN conjunct2, THEN conjunct2, THEN conjunct2, THEN conjunct2, THEN conjunct2,
         THEN conjunct2, THEN conjunct1, rule_format, OF dm]
    by simp
  let ?re = "\<lparr>ok = False, json = Throw SyntaxError\<rparr>"
  have ne: "\<not> ok ?re" by simp
  note e = inst [OF one [of "?re"] len0 lt0 ne]
  have em: "json ?re = Throw SyntaxError" by simp
  have E: ?E
    using e [THEN conjunct1]
      e [THEN conjunct2, THEN conjunct2, THEN conjunct2, THEN conjunct2, THEN conjunct2,
         THEN conjunct2, THEN conjunct2, rule_format, OF em]
    by simp
  from A B C D E show ?thesis by blast
qed

subsection \<open>Claim C2\<close>

text \<open>
  Claim C2, as stated, fails. The claim is that with the stage-1 text absent the name of
  the result is \<^verbatim>\<open>Unnamed Creation\<close>. Here the text model answers \<^verbatim>\<open>{}\<close>, so the text is absent,
  and the image model returns \<^verbatim>\<open>AAAA\<close>: the name of the result is \<^verbatim>\<open>Il Creato Senza Nome\<close>,
  the initial value of \<^verbatim>\<open>generatedName\<close>.
\<close>

theorem fallback_name_counterexample:
  "handler json_parse replay (Some ''key'') post
     \<lparr>world = [Return \<lparr>ok = True, json = Return (JObject [])\<rparr>,
               Return (image_response (JObject [(''bytesBase64Encoded'', JString ''AAAA'')]))],
      trace = []\<rparr> =
   (Return (200, FusionReply (JString ''Il Creato Senza Nome'') (JString ''The Unnamed Creation'')
                   ''data:image/png;base64,AAAA''),
    \<lparr>world = [],
     trace = [Call (gemini_request ''key'' (Some (JObject [(''contents'', JArray [])]))),
              Call (imagen_request ''key''
                ''A surreal hybrid creature, vibrant colors, baroque illustration, octane render.'')]\<rparr>)
   \<and> JString ''Il Creato Senza Nome'' \<noteq> JString ''Unnamed Creation''"
  by (simp add: run_defs post_def image_response_def)

text \<open>
  Claim C2, amended. Let stage 1 end with an ok response whose body is JSON, and let the
  first text part of its first candidate be absent, or be a string that is not JSON. Then
  the request does not fail at stage 1: the stage-2 call is made with the fallback prompt
  \<^verbatim>\<open>A surreal hybrid creature, vibrant colors, baroque illustration, octane render.\<close>, and when
  that call ends with an ok response carrying the image \<open>b\<close>, the reply is 200 with the name
  \<^verbatim>\<open>Il Creato Senza Nome\<close>, the translation \<^verbatim>\<open>The Unnamed Creation\<close> and the data URI of \<open>b\<close>.
\<close>

theorem unparsable_text_falls_back:
  assumes "method req = ''POST''" and "k \<noteq> []"
    and "member (body req) ''geminiPayload'' = Return gp"
    and "retried fetch (gemini_request k gp) s = (Return (Some r1), s1)"
    and "ok r1" and "json r1 = Return g"
    and "jsonText (get g ''candidates'') = None
         \<or> (\<exists>t. jsonText (get g ''candidates'') = Some (JString t) \<and> parse t = None)"
    and "retried fetch
           (imagen_request k
              ''A surreal hybrid creature, vibrant colors, baroque illustration, octane render.'') s1 =
         (Return (Some r2), s2)"
    and "ok r2" and "json r2 = Return v"
    and "opt_member (opt_at0 (get v ''predictions'')) ''bytesBase64Encoded'' = Some (JString b)"
    and "b \<noteq> []"
  shows "handler parse fetch (Some k) req s =
         (Return (200, FusionReply (JString ''Il Creato Senza Nome'') (JString ''The Unnamed Creation'')
                         (''data:image/png;base64,'' @ b)), s2)"
proof -
  have 1: "step1 parse fetch k gp s =
      (Return (JString ''Il Creato Senza Nome'', JString ''The Unnamed Creation'',
        JString ''A surreal hybrid creature, vibrant colors, baroque illustration, octane render.''), s1)"
    using assms(5,6) idea_fallback [OF assms(7)]
    by (simp add: step1_response [where fetch = fetch, OF assms(4)])
  have t: "template (Some (JString
        ''A surreal hybrid creature, vibrant colors, baroque illustration, octane render.'')) =
      Return ''A surreal hybrid creature, vibrant colors, baroque illustration, octane render.''"
    by simp
  have "v \<noteq> JNull" using assms(11) by auto
  then have m: "member (Some v) ''predictions'' = Return (get v ''predictions'')"
    by (simp add: member_Some)
  have 2: "step2 fetch k (JString
        ''A surreal hybrid creature, vibrant colors, baroque illustration, octane render.'') s1 =
      (Return b, s2)"
    using assms(9,10,11,12) m
    by (simp add: step2_response [where fetch = fetch, OF t assms(8)])
  show ?thesis
    using 1 2 by (simp add: handler_reached [OF assms(1,2,3)] fusion_def)
qed

text \<open>
  Claim C2, amended, on a concrete run: the text is \<^verbatim>\<open>not json\<close>, which the parser rejects, and
  the image model returns \<^verbatim>\<open>AAAA\<close>.
\<close>

theorem unparsable_text_falls_back_witness:
  "handler json_parse replay (Some ''key'') post
     \<lparr>world = [Return (text_response ''not json''),
               Return (image_response (JObject [(''bytesBase64Encoded'', JString ''AAAA'')]))],
      trace = []\<rparr> =
   (Return (200, FusionReply (JString ''Il Creato Senza Nome'') (JString ''The Unnamed Creation'')
                   ''data:image/png;base64,AAAA''),
    \<lparr>world = [],
     trace = [Call (gemini_request ''key'' (Some (JObject [(''contents'', JArray [])]))),
              Call (imagen_request ''key''
                ''A surreal hybrid creature, vibrant colors, baroque illustration, octane render.'')]\<rparr>)"
proof -
  let ?r1 = "text_response ''not json''"
  let ?r2 = "image_response (JObject [(''bytesBase64Encoded'', JString ''AAAA'')])"
  let ?gp = "Some (JObject [(''contents'', JArray [])])"
  let ?fallback = "''A surreal hybrid creature, vibrant colors, baroque illustration, octane render.''"
  have h1: "method post = ''POST''" by (simp add: post_def)
  have h2: "''key'' \<noteq> []" by simp
  have h4: "retried replay (gemini_request ''key'' ?gp) \<lparr>world = [Return ?r1, Return ?r2], trace = []\<rparr> =
      (Return (Some ?r1), \<lparr>world = [Return ?r2], trace = [Call (gemini_request ''key'' ?gp)]\<rparr>)"
    by (simp add: retried_replay)
  have h5: "ok ?r1" by (simp add: text_response_def)
  have h6: "json ?r1 = Return (envelope ''not json'')" by (simp add: text_response_def)
  have h7: "jsonText (get (envelope ''not json'') ''candidates'') = None
      \<or> (\<exists>t. jsonText (get (envelope ''not json'') ''candidates'') = Some (JString t) \<and> json_parse t = None)"
    using jsonText_envelope [of "''not json''"] parse_not_json by blast
  have h8: "retried replay (imagen_request ''key'' ?fallback)
        \<lparr>world = [Return ?r2], trace = [Call (gemini_request ''key'' ?gp)]\<rparr> =
      (Return (Some ?r2),
       \<lparr>world = [], trace = [Call (gemini_request ''key'' ?gp), Call (imagen_request ''key'' ?fallback)]\<rparr>)"
    by (simp add: retried_replay)
  have h9: "ok ?r2" by (simp add: image_response_def)
  have h10: "json ?r2 =
      Return (JObject [(''predictions'', JArray [JObject [(''bytesBase64Encoded'', JString ''AAAA'')]])])"
    by (simp add: image_response_def)
  have h11: "opt_member (opt_at0 (get
        (JObject [(''predictions'', JArray [JObject [(''bytesBase64Encoded'', JString ''AAAA'')]])])
        ''predictions'')) ''bytesBase64Encoded'' = Some (JString ''AAAA'')"
    by simp
  have h12: "''AAAA'' \<noteq> []" by simp
  show ?thesis
    using unparsable_text_falls_back [where parse = json_parse and fetch = replay,
          OF h1 h2 member_post h4 h5 h6 h7 h8 h9 h10 h11 h12]
    by simp
qed

subsection \<open>Claim C3\<close>

text \<open>
  Claim C3. An operation that fails exactly \<open>k\<close> times and then succeeds with \<open>v\<close>, where
  \<open>k < maxRetries\<close>: \<^verbatim>\<open>withRetry\<close> returns \<open>v\<close>; its trace is \<open>k\<close> times the call followed by a
  pause, then the call that succeeds, so the operation has been invoked \<open>k + 1\<close> times; and
  the pauses are \<open>delay * 2 ^ i\<close> for \<open>i = 0, \<dots>, k - 1\<close>, in this order.
\<close>

theorem withRetry_succeeds_after_failures:
  assumes "runs f (world s) (Suc k) = map Throw es @ [Return v]" and "length es = k"
    and "int k < maxRetries"
  shows "withRetry (call c f) maxRetries delay s =
           (Return (Some v),
            \<lparr>world = world_after f (world s) (Suc k),
             trace = trace s @ attempts c delay 0 k @ [Call c]\<rparr>)
         \<and> calls (attempts c delay 0 k @ [Call c]) = k + 1
         \<and> sleeps (attempts c delay 0 k @ [Call c]) = map (\<lambda>i. delay * 2 ^ i) [0..<k]"
proof -
  obtain w tr where s: "s = \<lparr>world = w, trace = tr\<rparr>" by (cases s)
  have "withRetry_from (int 0) (call c f) maxRetries delay \<lparr>world = w, trace = tr\<rparr> =
        (Return (Some v), \<lparr>world = world_after f w (Suc k),
          trace = tr @ attempts c delay 0 k @ [Call c]\<rparr>)"
    using assms unfolding s by (intro loop_succeeds) simp_all
  then have "withRetry (call c f) maxRetries delay s =
        (Return (Some v), \<lparr>world = world_after f (world s) (Suc k),
          trace = trace s @ attempts c delay 0 k @ [Call c]\<rparr>)"
    by (simp add: withRetry_def s)
  moreover have "calls (attempts c delay 0 k @ [Call c]) = k + 1"
    by (simp add: calls_append calls_attempts) (simp add: calls_def)
  moreover have "sleeps (attempts c delay 0 k @ [Call c]) = map (\<lambda>i. delay * 2 ^ i) [0..<k]"
    by (simp add: sleeps_append sleeps_attempts) (simp add: sleeps_def)
  ultimately show ?thesis by blast
qed

text \<open>
  Claim C3 on a concrete run with the defaults: the operation fails twice and then
  succeeds, after pauses of 1000 and 2000 ms.
\<close>

theorem withRetry_succeeds_after_failures_witness:
  "withRetry (call ''op'' (\<lambda>w::nat. (if w < 2 then Throw (Error ''down'') else Return w, Suc w))) 3 1000
     \<lparr>world = 0, trace = []\<rparr> =
   (Return (Some 2),
    \<lparr>world = 3, trace = [Call ''op'', Sleep 1000, Call ''op'', Sleep 2000, Call ''op'']\<rparr>)
   \<and> sleeps [Call ''op'', Sleep 1000, Call ''op'', Sleep 2000, Call ''op''] = [1000, 2000]"
proof -
  let ?f = "\<lambda>w::nat. (if w < 2 then Throw (Error ''down'') else Return w, Suc w)"
  let ?s = "\<lparr>world = 0::nat, trace = [] :: string event list\<rparr>"
  have h1: "runs ?f (world ?s) (Suc 2) = map Throw [Error ''down'', Error ''down''] @ [Return 2]"
    by (simp add: numeral_2_eq_2)
  have h2: "length [Error ''down'', Error ''down''] = 2" by simp
  have h3: "int 2 < 3" by simp
  show ?thesis
    using withRetry_succeeds_after_failures [OF h1 h2 h3, of "''op''" 1000]
    by (simp add: numeral_2_eq_2 sleeps_def)
qed

subsection \<open>Claim C4\<close>

text \<open>
  Claim C4. An operation that fails on each of the \<open>n\<close> attempts a cap \<open>n > 0\<close> allows:
  \<^verbatim>\<open>withRetry\<close> invokes it exactly \<open>n\<close> times, with a pause after every attempt but the last,
  and then throws the error of the last attempt. In the handler, where the cap is 3: when
  the three stage-1 calls are rejected, or stage 1 succeeds and the three stage-2 calls
  are rejected, the reply is 500 with the message of the last rejection (the generic
  message when that one is empty), after exactly three calls to that endpoint.
\<close>

theorem withRetry_exhausted:
  assumes "runs f (world s) n = map Throw es" and "0 < n"
  shows "withRetry (call c f) (int n) delay s =
           (Throw (last es),
            \<lparr>world = world_after f (world s) n,
             trace = trace s @ attempts c delay 0 (n - 1) @ [Call c]\<rparr>)
         \<and> calls (attempts c delay 0 (n - 1) @ [Call c]) = n
         \<and> (method req = ''POST'' \<and> k \<noteq> [] \<and> member (body req) ''geminiPayload'' = Return gp
              \<and> runs (fetch (gemini_request k gp)) (world t) 3 = [Throw e1, Throw e2, Throw e3] \<longrightarrow>
            handler parse fetch (Some k) req t =
              (Return (500, ErrorReply (message_or e3 ''An internal server error occurred.'')),
               \<lparr>world = world_after (fetch (gemini_request k gp)) (world t) 3,
                trace = trace t @ [Call (gemini_request k gp), Sleep 1000, Call (gemini_request k gp),
                                   Sleep 2000, Call (gemini_request k gp)]\<rparr>))
         \<and> (method req = ''POST'' \<and> k \<noteq> [] \<and> member (body req) ''geminiPayload'' = Return gp
              \<and> step1 parse fetch k gp t = (Return (name, translation, p), t1)
              \<and> template (Some p) = Return pt
              \<and> runs (fetch (imagen_request k pt)) (world t1) 3 = [Throw e1, Throw e2, Throw e3] \<longrightarrow>
            handler parse fetch (Some k) req t =
              (Return (500, ErrorReply (message_or e3 ''An internal server error occurred.'')),
               \<lparr>world = world_after (fetch (imagen_request k pt)) (world t1) 3,
                trace = trace t1 @ [Call (imagen_request k pt), Sleep 1000, Call (imagen_request k pt),
                                    Sleep 2000, Call (imagen_request k pt)]\<rparr>))"
proof -
  obtain w tr where s: "s = \<lparr>world = w, trace = tr\<rparr>" by (cases s)
  obtain j where n: "n = Suc j" using assms(2) by (cases n) auto
  have "withRetry_from (int 0) (call c f) (int n) delay \<lparr>world = w, trace = tr\<rparr> =
        (Throw (last es), \<lparr>world = world_after f w (Suc j),
          trace = tr @ attempts c delay 0 j @ [Call c]\<rparr>)"
    using assms unfolding s n by (intro loop_exhausted) simp_all
  then have generic: "withRetry (call c f) (int n) delay s =
        (Throw (last es), \<lparr>world = world_after f (world s) n,
          trace = trace s @ attempts c delay 0 (n - 1) @ [Call c]\<rparr>)"
    by (simp add: withRetry_def s n)
  have count: "calls (attempts c delay 0 (n - 1) @ [Call c]) = n"
    using assms(2) by (simp add: calls_append calls_attempts) (simp add: calls_def)
  have stage1: "handler parse fetch (Some k) req t =
              (Return (500, ErrorReply (message_or e3 ''An internal server error occurred.'')),
               \<lparr>world = world_after (fetch (gemini_request k gp)) (world t) 3,
                trace = trace t @ [Call (gemini_request k gp), Sleep 1000, Call (gemini_request k gp),
                                   Sleep 2000, Call (gemini_request k gp)]\<rparr>)"
    if "method req = ''POST''" "k \<noteq> []" "member (body req) ''geminiPayload'' = Return gp"
      "runs (fetch (gemini_request k gp)) (world t) 3 = [Throw e1, Throw e2, Throw e3]"
  proof -
    have "step1 parse fetch k gp t =
        (Throw e3, \<lparr>world = world_after (fetch (gemini_request k gp)) (world t) 3,
                trace = trace t @ [Call (gemini_request k gp), Sleep 1000, Call (gemini_request k gp),
                                   Sleep 2000, Call (gemini_request k gp)]\<rparr>)"
      by (simp add: step1_def Let_def
          retried_exhausted [where fetch = fetch and rq = "gemini_request k gp", OF that(4)])
    then show ?thesis
      by (simp add: handler_reached [OF that(1,2,3)] fusion_def)
  qed
  have stage2: "handler parse fetch (Some k) req t =
              (Return (500, ErrorReply (message_or e3 ''An internal server error occurred.'')),
               \<lparr>world = world_after (fetch (imagen_request k pt)) (world t1) 3,
                trace = trace t1 @ [Call (imagen_request k pt), Sleep 1000, Call (imagen_request k pt),
                                    Sleep 2000, Call (imagen_request k pt)]\<rparr>)"
    if "method req = ''POST''" "k \<noteq> []" "member (body req) ''geminiPayload'' = Return gp"
      "step1 parse fetch k gp t = (Return (name, translation, p), t1)"
      "template (Some p) = Return pt"
      "runs (fetch (imagen_request k pt)) (world t1) 3 = [Throw e1, Throw e2, Throw e3]"
  proof -
    have "step2 fetch k p t1 =
        (Throw e3, \<lparr>world = world_after (fetch (imagen_request k pt)) (world t1) 3,
                trace = trace t1 @ [Call (imagen_request k pt), Sleep 1000, Call (imagen_request k pt),
                                    Sleep 2000, Call (imagen_request k pt)]\<rparr>)"
      using that(5)
      by (simp add: step2_def Let_def
          retried_exhausted [where fetch = fetch and rq = "imagen_request k pt", OF that(6)]
          del: template.simps)
    then show ?thesis
      using that(4) by (simp add: handler_reached [OF that(1,2,3)] fusion_def)
  qed
  from generic count stage1 stage2 show ?thesis by blast
qed

text \<open>
  Claim C4 on concrete runs: an operation that always fails, under the defaults; the text
  model unreachable three times; and the image model unreachable three times after a good
  answer of the text model.
\<close>

theorem withRetry_exhausted_witness:
  "withRetry (call ''op'' (\<lambda>w::nat. (Throw (Error (if w = 2 then ''last'' else ''down'')) :: nat completion, Suc w)))
     3 1000 \<lparr>world = 0, trace = []\<rparr> =
   (Throw (Error ''last''),
    \<lparr>world = 3, trace = [Call ''op'', Sleep 1000, Call ''op'', Sleep 2000, Call ''op'']\<rparr>)
   \<and> calls [Call ''op'', Sleep 1000, Call ''op'', Sleep 2000, Call ''op''] = 3
   \<and> handler json_parse replay (Some ''key'') post
        \<lparr>world = [Throw (Error ''reset''), Throw (Error ''reset''), Throw (Error ''socket hang up''),
                  Return (text_response sample_text)], trace = []\<rparr> =
      (Return (500, ErrorReply (Text ''socket hang up'')),
       \<lparr>world = [Return (text_response sample_text)],
        trace = [Call (gemini_request ''key'' (Some (JObject [(''contents'', JArray [])]))), Sleep 1000,
                 Call (gemini_request ''key'' (Some (JObject [(''contents'', JArray [])]))), Sleep 2000,
                 Call (gemini_request ''key'' (Some (JObject [(''contents'', JArray [])])))]\<rparr>)
   \<and> handler json_parse replay (Some ''key'') post
        \<lparr>world = [Return (text_response sample_text),
                  Throw (Error ''reset''), Throw (Error ''reset''), Throw (Error ''socket hang up'')],
         trace = []\<rparr> =
      (Return (500, ErrorReply (Text ''socket hang up'')),
       \<lparr>world = [],
        trace = [Call (gemini_request ''key'' (Some (JObject [(''contents'', JArray [])]))),
                 Call (imagen_request ''key'' ''a bicycle with a cat's head''), Sleep 1000,
                 Call (imagen_request ''key'' ''a bicycle with a cat's head''), Sleep 2000,
                 Call (imagen_request ''key'' ''a bicycle with a cat's head'')]\<rparr>)"
proof -
  let ?f = "\<lambda>w::nat. (Throw (Error (if w = 2 then ''last'' else ''down'')) :: nat completion, Suc w)"
  let ?s = "\<lparr>world = 0::nat, trace = [] :: string event list\<rparr>"
  let ?gp = "Some (JObject [(''contents'', JArray [])])"
  let ?down = "[Throw (Error ''reset''), Throw (Error ''reset''), Throw (Error ''socket hang up'')]
                :: response completion list"
  let ?t = "\<lparr>world = ?down @ [Return (text_response sample_text)], trace = [] :: request event list\<rparr>"
  let ?u = "\<lparr>world = Return (text_response sample_text) # ?down, trace = [] :: request event list\<rparr>"
  let ?u1 = "\<lparr>world = ?down, trace = [Call (gemini_request ''key'' ?gp)]\<rparr>"
  have g1: "runs ?f (world ?s) 3 = map Throw [Error ''down'', Error ''down'', Error ''last'']"
    by (simp add: eval_nat_numeral)
  have g2: "0 < (3::nat)" by simp
  have h1: "method post = ''POST''" by (simp add: post_def)
  have h2: "''key'' \<noteq> []" by simp
  have a: "runs (replay (gemini_request ''key'' ?gp)) (world ?t) 3 =
      [Throw (Error ''reset''), Throw (Error ''reset''), Throw (Error ''socket hang up'')]"
    by (simp add: eval_nat_numeral)
  have b1: "step1 json_parse replay ''key'' ?gp ?u =
      (Return (JString ''Gattociclo'', JString ''Cat-cycle'', JString ''a bicycle with a cat's head''), ?u1)"
    by (rule step1_sample)
  have b2: "template (Some (JString ''a bicycle with a cat's head'')) = Return ''a bicycle with a cat's head''"
    by simp
  have b3: "runs (replay (imagen_request ''key'' ''a bicycle with a cat's head'')) (world ?u1) 3 =
      [Throw (Error ''reset''), Throw (Error ''reset''), Throw (Error ''socket hang up'')]"
    by (simp add: eval_nat_numeral)
  note first = withRetry_exhausted [where f = ?f and s = ?s and c = "''op''" and delay = 1000
      and parse = json_parse and fetch = replay and req = post and k = "''key''" and gp = ?gp
      and t = ?t and ?e1.0 = "Error ''reset''" and ?e2.0 = "Error ''reset''"
      and ?e3.0 = "Error ''socket hang up''", OF g1 g2]
  note second = withRetry_exhausted [where f = ?f and s = ?s and c = "''op''" and delay = 1000
      and parse = json_parse and fetch = replay and req = post and k = "''key''" and gp = ?gp
      and t = ?u and ?e1.0 = "Error ''reset''" and ?e2.0 = "Error ''reset''"
      and ?e3.0 = "Error ''socket hang up''" and name = "JString ''Gattociclo''"
      and translation = "JString ''Cat-cycle''" and p = "JString ''a bicycle with a cat's head''"
      and ?t1.0 = ?u1 and pt = "''a bicycle with a cat's head''", OF g1 g2]
  have 1: "withRetry (call ''op'' ?f) 3 1000 ?s =
      (Throw (Error ''last''),
       \<lparr>world = 3, trace = [Call ''op'', Sleep 1000, Call ''op'', Sleep 2000, Call ''op'']\<rparr>)"
    using first [THEN conjunct1] by (simp add: eval_nat_numeral)
  have 2: "calls [Call ''op'', Sleep 1000, Call ''op'', Sleep 2000, Call ''op''] = 3"
    using first [THEN conjunct2, THEN conjunct1] by (simp add: eval_nat_numeral)
  have 3: "handler json_parse replay (Some ''key'') post ?t =
      (Return (500, ErrorReply (Text ''socket hang up'')),
       \<lparr>world = [Return (text_response sample_text)],
        trace = [Call (gemini_request ''key'' ?gp), Sleep 1000,
                 Call (gemini_request ''key'' ?gp), Sleep 2000,
                 Call (gemini_request ''key'' ?gp)]\<rparr>)"
    using first [THEN conjunct2, THEN conjunct2, THEN conjunct1] h1 h2 member_post a
    by (simp add: eval_nat_numeral)
  have 4: "handler json_parse replay (Some ''key'') post ?u =
      (Return (500, ErrorReply (Text ''socket hang up'')),
       \<lparr>world = [],
        trace = [Call (gemini_request ''key'' ?gp),
                 Call (imagen_request ''key'' ''a bicycle with a cat's head''), Sleep 1000,
                 Call (imagen_request ''key'' ''a bicycle with a cat's head''), Sleep 2000,
                 Call (imagen_request ''key'' ''a bicycle with a cat's head'')]\<rparr>)"
    using second [THEN conjunct2, THEN conjunct2, THEN conjunct2] h1 h2 member_post b1 b2 b3
    by (simp add: eval_nat_numeral)
  from 1 2 3 4 show ?thesis by simp
qed

subsection \<open>Claim C5\<close>

text \<open>
  Claim C5. Stage 1 ends with an ok response whose text part is the text of the example,
  which denotes the object with \<^verbatim>\<open>italianName\<close> Gattociclo, \<^verbatim>\<open>englishTranslation\<close> Cat-cycle and
  \<^verbatim>\<open>imagePrompt\<close> \<^verbatim>\<open>a bicycle with a cat's head\<close>; stage 2, called with that prompt, ends with an ok
  response whose body is \<^verbatim>\<open>{ predictions: [{ bytesBase64Encoded: AAAA }] }\<close>. Then the reply is
  200 with the name Gattociclo, the translation Cat-cycle and the image URL
  \<^verbatim>\<open>data:image/png;base64,AAAA\<close>.
\<close>

theorem gattociclo:
  assumes "method req = ''POST''" and "k \<noteq> []"
    and "member (body req) ''geminiPayload'' = Return gp"
    and "retried fetch (gemini_request k gp) s = (Return (Some r1), s1)"
    and "ok r1" and "json r1 = Return g"
    and "jsonText (get g ''candidates'') = Some (JString sample_text)"
    and "parse sample_text =
         Some (JObject
           [(''italianName'', JString ''Gattociclo''),
            (''englishTranslation'', JString ''Cat-cycle''),
            (''imagePrompt'', JString ''a bicycle with a cat's head'')])"
    and "retried fetch (imagen_request k ''a bicycle with a cat's head'') s1 = (Return (Some r2), s2)"
    and "ok r2"
    and "json r2 =
         Return (JObject [(''predictions'', JArray [JObject [(''bytesBase64Encoded'', JString ''AAAA'')]])])"
  shows "handler parse fetch (Some k) req s =
         (Return (200, FusionReply (JString ''Gattociclo'') (JString ''Cat-cycle'')
                         ''data:image/png;base64,AAAA''), s2)"
proof -
  have g: "member (Some g) ''candidates'' = Return (get g ''candidates'')"
    using jsonText_not_null [OF assms(7)] by (simp add: member_Some)
  have p: "JSON_parse parse (jsonText (get g ''candidates'')) =
      Return (JObject
           [(''italianName'', JString ''Gattociclo''),
            (''englishTranslation'', JString ''Cat-cycle''),
            (''imagePrompt'', JString ''a bicycle with a cat's head'')])"
    using assms(7,8) by simp
  have i: "idea parse g =
      (JString ''Gattociclo'', JString ''Cat-cycle'', JString ''a bicycle with a cat's head'')"
    by (simp add: idea_parsed [OF g p])
  have 1: "step1 parse fetch k gp s =
      (Return (JString ''Gattociclo'', JString ''Cat-cycle'', JString ''a bicycle with a cat's head''), s1)"
    using assms(5,6) i by (simp add: step1_response [where fetch = fetch, OF assms(4)])
  have t: "template (Some (JString ''a bicycle with a cat's head'')) = Return ''a bicycle with a cat's head''"
    by simp
  have 2: "step2 fetch k (JString ''a bicycle with a cat's head'') s1 = (Return ''AAAA'', s2)"
    using assms(10,11) by (simp add: step2_response [where fetch = fetch, OF t assms(9)])
  show ?thesis
    using 1 2 by (simp add: handler_reached [OF assms(1,2,3)] fusion_def)
qed

text \<open>
  Claim C5 on a concrete run, the text parsed by \<open>json_parse\<close> and the two responses served
  by the scripted network.
\<close>

theorem gattociclo_witness:
  "handler json_parse replay (Some ''key'') post
     \<lparr>world = [Return (text_response sample_text),
               Return (image_response (JObject [(''bytesBase64Encoded'', JString ''AAAA'')]))],
      trace = []\<rparr> =
   (Return (200, FusionReply (JString ''Gattociclo'') (JString ''Cat-cycle'')
                   ''data:image/png;base64,AAAA''),
    \<lparr>world = [],
     trace = [Call (gemini_request ''key'' (Some (JObject [(''contents'', JArray [])]))),
              Call (imagen_request ''key'' ''a bicycle with a cat's head'')]\<rparr>)"
proof -
  let ?r1 = "text_response sample_text"
  let ?r2 = "image_response (JObject [(''bytesBase64Encoded'', JString ''AAAA'')])"
  let ?gp = "Some (JObject [(''contents'', JArray [])])"
  have h1: "method post = ''POST''" by (simp add: post_def)
  have h2: "''key'' \<noteq> []" by simp
  have h4: "retried replay (gemini_request ''key'' ?gp) \<lparr>world = [Return ?r1, Return ?r2], trace = []\<rparr> =
      (Return (Some ?r1), \<lparr>world = [Return ?r2], trace = [Call (gemini_request ''key'' ?gp)]\<rparr>)"
    by (simp add: retried_replay)
  have h5: "ok ?r1" by (simp add: text_response_def)
  have h6: "json ?r1 = Return (envelope sample_text)" by (simp add: text_response_def)
  have h9: "retried replay (imagen_request ''key'' ''a bicycle with a cat's head'')
        \<lparr>world = [Return ?r2], trace = [Call (gemini_request ''key'' ?gp)]\<rparr> =
      (Return (Some ?r2),
       \<lparr>world = [], trace = [Call (gemini_request ''key'' ?gp),
                            Call (imagen_request ''key'' ''a bicycle with a cat's head'')]\<rparr>)"
    by (simp add: retried_replay)
  have h10: "ok ?r2" by (simp add: image_response_def)
  have h11: "json ?r2 =
      Return (JObject [(''predictions'', JArray [JObject [(''bytesBase64Encoded'', JString ''AAAA'')]])])"
    by (simp add: image_response_def)
  show ?thesis
    by (rule gattociclo [where parse = json_parse and fetch = replay,
          OF h1 h2 member_post h4 h5 h6 jsonText_envelope parse_sample_text h9 h10 h11])
qed

subsection \<open>Claim C6\<close>

text \<open>
  Claim C6. Whatever idea stage 1 returned, parsed or fallback: when the stage-2 call ends
  with an ok response in whose body the first prediction has no \<^verbatim>\<open>bytesBase64Encoded\<close>
  field, the reply is 500 with the error \<^verbatim>\<open>Image generation failed to return data.\<close>; there
  is no fallback image.
\<close>

theorem no_image_data:
  assumes "method req = ''POST''" and "k \<noteq> []"
    and "member (body req) ''geminiPayload'' = Return gp"
    and "step1 parse fetch k gp s = (Return (name, translation, p), s1)"
    and "template (Some p) = Return pt"
    and "retried fetch (imagen_request k pt) s1 = (Return (Some r2), s2)"
    and "ok r2" and "json r2 = Return v"
    and "opt_at0 (get v ''predictions'') = Some prediction"
    and "get prediction ''bytesBase64Encoded'' = None"
  shows "handler parse fetch (Some k) req s =
         (Return (500, ErrorReply (Text ''Image generation failed to return data.'')), s2)"
proof -
  have "v \<noteq> JNull" using assms(9) by auto
  then have m: "member (Some v) ''predictions'' = Return (get v ''predictions'')"
    by (simp add: member_Some)
  have "opt_member (opt_at0 (get v ''predictions'')) ''bytesBase64Encoded'' = None"
    using assms(9,10) by (cases prediction) simp_all
  then have "step2 fetch k p s1 = (Throw (Error ''Image generation failed to return data.''), s2)"
    using assms(7,8) m by (simp add: step2_response [where fetch = fetch, OF assms(5,6)])
  then show ?thesis
    using assms(4) by (simp add: handler_reached [OF assms(1,2,3)] fusion_def)
qed

text \<open>
  Claim C6 on a concrete run: the text model answers the example, the image model answers
  \<^verbatim>\<open>{ predictions: [{}] }\<close>.
\<close>

theorem no_image_data_witness:
  "handler json_parse replay (Some ''key'') post
     \<lparr>world = [Return (text_response sample_text), Return (image_response (JObject []))], trace = []\<rparr> =
   (Return (500, ErrorReply (Text ''Image generation failed to return data.'')),
    \<lparr>world = [],
     trace = [Call (gemini_request ''key'' (Some (JObject [(''contents'', JArray [])]))),
              Call (imagen_request ''key'' ''a bicycle with a cat's head'')]\<rparr>)"
proof -
  let ?r2 = "image_response (JObject [])"
  let ?gp = "Some (JObject [(''contents'', JArray [])])"
  have h1: "method post = ''POST''" by (simp add: post_def)
  have h2: "''key'' \<noteq> []" by simp
  have h4: "step1 json_parse replay ''key'' ?gp
        \<lparr>world = [Return (text_response sample_text), Return ?r2], trace = []\<rparr> =
      (Return (JString ''Gattociclo'', JString ''Cat-cycle'', JString ''a bicycle with a cat's head''),
       \<lparr>world = [Return ?r2], trace = [Call (gemini_request ''key'' ?gp)]\<rparr>)"
    by (rule step1_sample)
  have h5: "template (Some (JString ''a bicycle with a cat's head'')) = Return ''a bicycle with a cat's head''"
    by simp
  have h6: "retried replay (imagen_request ''key'' ''a bicycle with a cat's head'')
        \<lparr>world = [Return ?r2], trace = [Call (gemini_request ''key'' ?gp)]\<rparr> =
      (Return (Some ?r2),
       \<lparr>world = [], trace = [Call (gemini_request ''key'' ?gp),
                            Call (imagen_request ''key'' ''a bicycle with a cat's head'')]\<rparr>)"
    by (simp add: retried_replay)
  have h7: "ok ?r2" by (simp add: image_response_def)
  have h8: "json ?r2 = Return (JObject [(''predictions'', JArray [JObject []])])"
    by (simp add: image_response_def)
  have h9: "opt_at0 (get (JObject [(''predictions'', JArray [JObject []])]) ''predictions'') = Some (JObject [])"
    by simp
  have h10: "get (JObject []) ''bytesBase64Encoded'' = None" by simp
  show ?thesis
    by (rule no_image_data [where parse = json_parse and fetch = replay,
          OF h1 h2 member_post h4 h5 h6 h7 h8 h9 h10])
qed

subsection \<open>Claim C7\<close>




subsection \<open>Claim C8\<close>




subsection \<open>Claim C9\<close>

text \<open>
  Claim C9. With a cap of zero or less, \<^verbatim>\<open>withRetry\<close> resolves with \<^verbatim>\<open>undefined\<close> and leaves
  the machine as it was, whatever the operation: the operation is not invoked.
\<close>

theorem withRetry_nonpositive_cap:
  "maxRetries \<le> 0 \<Longrightarrow> withRetry fn maxRetries delay s = (Return None, s)"
  by (simp add: withRetry_def withRetry_from_done)

text \<open>
  Claim C9 on concrete runs: an operation that would fail, under the cap 0, and one that
  would succeed, under the cap -2.
\<close>

theorem withRetry_nonpositive_cap_witness:
  "(0::int) \<le> 0 \<and> (- 2::int) \<le> 0
   \<and> withRetry (call ''op'' (\<lambda>w::nat. (Throw (Error ''down'') :: nat completion, Suc w))) 0 1000
        \<lparr>world = 0, trace = []\<rparr> = (Return None, \<lparr>world = 0, trace = []\<rparr>)
   \<and> withRetry (call ''op'' (\<lambda>w::nat. (Return w, Suc w))) (- 2) 1000
        \<lparr>world = 0, trace = []\<rparr> = (Return None, \<lparr>world = 0, trace = []\<rparr>)"
  using withRetry_nonpositive_cap [of 0 "call ''op'' (\<lambda>w::nat. (Throw (Error ''down'') :: nat completion, Suc w))" 1000 "\<lparr>world = 0, trace = []\<rparr>"]
    withRetry_nonpositive_cap [of "- 2" "call ''op'' (\<lambda>w::nat. (Return w, Suc w))" 1000 "\<lparr>world = 0, trace = []\<rparr>"]
  by simp

subsection \<open>Claim C10\<close>

text \<open>
  Claim C10, as stated, fails. The claim is that after stage 1 the three fields are
  always non-empty strings. Here the text is
  \<^verbatim>\<open>{"italianName":true,"englishTranslation":"","imagePrompt":"a cat"}\<close>: the translation, empty,
  is replaced by its fallback and the prompt is kept, field by field as claimed, but the
  name is the boolean \<^verbatim>\<open>true\<close>: \<^verbatim>\<open>||\<close> keeps any truthy value, of whatever type.
\<close>

theorem idea_non_string_counterexample:
  "idea json_parse (envelope untyped_text) =
     (JBool True, JString ''The Unnamed Creation'', JString ''a cat'')"
proof -
  have "JSON_parse json_parse (jsonText (get (envelope untyped_text) ''candidates'')) =
      Return (JObject [(''italianName'', JBool True), (''englishTranslation'', JString ''''),
                  (''imagePrompt'', JString ''a cat'')])"
    by (simp add: jsonText_envelope parse_untyped_text)
  then show ?thesis
    by (simp add: idea_parsed [OF member_envelope])
qed

text \<open>
  Claim C10, amended. When the stage-1 text is a string that parses as JSON, each of the
  three fields is, independently of the other two, the parsed value when that is truthy
  and its own fallback when it is missing or falsy. So the three fields are always truthy:
  a string among them is not empty, and a truthy value that is not a string is kept as it
  is.
\<close>

theorem idea_per_field:
  assumes "jsonText (get g ''candidates'') = Some (JString t)" and "parse t = Some parsedJson"
  shows "idea parse g =
           (or_else (get parsedJson ''italianName'') (JString ''Il Creato Senza Nome''),
            or_else (get parsedJson ''englishTranslation'') (JString ''The Unnamed Creation''),
            or_else (get parsedJson ''imagePrompt'')
              (JString ''A surreal hybrid creature, vibrant colors, baroque illustration, octane render.''))
         \<and> truthy (Some (fst (idea parse g)))
         \<and> truthy (Some (fst (snd (idea parse g))))
         \<and> truthy (Some (snd (snd (idea parse g))))"
proof -
  have m: "member (Some g) ''candidates'' = Return (get g ''candidates'')"
    using jsonText_not_null [OF assms(1)] by (simp add: member_Some)
  have p: "JSON_parse parse (jsonText (get g ''candidates'')) = Return parsedJson"
    using assms by simp
  have "idea parse g =
           (or_else (get parsedJson ''italianName'') (JString ''Il Creato Senza Nome''),
            or_else (get parsedJson ''englishTranslation'') (JString ''The Unnamed Creation''),
            or_else (get parsedJson ''imagePrompt'')
              (JString ''A surreal hybrid creature, vibrant colors, baroque illustration, octane render.''))"
    by (rule idea_parsed [OF m p])
  moreover have "truthy (Some (fst (idea parse g))) \<and> truthy (Some (fst (snd (idea parse g))))
         \<and> truthy (Some (snd (snd (idea parse g))))"
    using idea_truthy [of parse g] by (cases "idea parse g") simp
  ultimately show ?thesis by blast
qed

text \<open>
  Claim C10, amended, on a concrete run: the text is
  \<^verbatim>\<open>{"italianName":"Gattociclo","englishTranslation":""}\<close>; the name is kept, the empty
  translation and the missing prompt are replaced.
\<close>

theorem idea_per_field_witness:
  "idea json_parse (envelope partial_text) =
     (JString ''Gattociclo'', JString ''The Unnamed Creation'',
      JString ''A surreal hybrid creature, vibrant colors, baroque illustration, octane render.'')"
  using idea_per_field [where parse = json_parse, OF jsonText_envelope parse_partial_text]
  by simp

end
